theory Spec2Isabelle
  imports Main "HOL-Library.Sublist"
begin

section \<open>Python strings\<close>

text \<open>
  A Python \<^verbatim>\<open>str\<close> is a sequence of Unicode code points, so it is modelled as a list of
  natural numbers. The literals of \<^verbatim>\<open>server.py\<close> that are plain ASCII are written through
  \<open>u\<close>; the others are given by their code points.
\<close>

type_synonym ustr = "nat list"

definition u :: "string \<Rightarrow> ustr" where
  "u s = map of_char s"

text \<open>\<^verbatim>\<open>s.startswith(p)\<close> and \<^verbatim>\<open>p in s\<close>.\<close>

definition startswith :: "ustr \<Rightarrow> ustr \<Rightarrow> bool" where
  "startswith s p = prefix p s"

fun contains :: "ustr \<Rightarrow> ustr \<Rightarrow> bool" where
  "contains [] p = (p = [])"
| "contains (c # cs) p = (prefix p (c # cs) \<or> contains cs p)"

text \<open>
  \<^verbatim>\<open>s.split(sep)\<close> for a non-empty separator: the pieces between the non-overlapping
  occurrences of \<open>sep\<close>, found from the left. \<open>skip\<close> counts the code points of a matched
  separator that are still to be passed over, \<open>cur\<close> is the piece being collected.
  Python raises \<^verbatim>\<open>ValueError\<close> for an empty separator; every call of the source passes a
  non-empty literal.
\<close>

fun split_go :: "ustr \<Rightarrow> nat \<Rightarrow> ustr \<Rightarrow> ustr \<Rightarrow> ustr list" where
  "split_go sep skip cur [] = [cur]"
| "split_go sep skip cur (c # cs) =
     (if 0 < skip then split_go sep (skip - 1) cur cs
      else if prefix sep (c # cs) then cur # split_go sep (length sep - 1) [] cs
      else split_go sep 0 (cur @ [c]) cs)"

definition split :: "ustr \<Rightarrow> ustr \<Rightarrow> ustr list" where
  "split s sep = split_go sep 0 [] s"

text \<open>\<^verbatim>\<open>sep.join(xs)\<close>.\<close>

fun join :: "ustr \<Rightarrow> ustr list \<Rightarrow> ustr" where
  "join sep [] = []"
| "join sep [x] = x"
| "join sep (x # y # ys) = x @ sep @ join sep (y # ys)"

text \<open>
  \<^verbatim>\<open>s.replace(old, new)\<close> for a non-empty \<open>old\<close>: every non-overlapping occurrence, from
  the left. The source calls it with \<^verbatim>\<open>"/app"\<close> only.
\<close>

fun replace_go :: "ustr \<Rightarrow> ustr \<Rightarrow> nat \<Rightarrow> ustr \<Rightarrow> ustr" where
  "replace_go old new skip [] = []"
| "replace_go old new skip (c # cs) =
     (if 0 < skip then replace_go old new (skip - 1) cs
      else if prefix old (c # cs) then new @ replace_go old new (length old - 1) cs
      else c # replace_go old new 0 cs)"

definition replace :: "ustr \<Rightarrow> ustr \<Rightarrow> ustr \<Rightarrow> ustr" where
  "replace s old new = replace_go old new 0 s"

text \<open>
  The code points for which \<^verbatim>\<open>str.isspace\<close> holds, which are the ones \<^verbatim>\<open>str.strip()\<close>
  removes from both ends.
\<close>

definition isspace :: "nat \<Rightarrow> bool" where
  "isspace c \<longleftrightarrow>
     (9 \<le> c \<and> c \<le> 13) \<or> (28 \<le> c \<and> c \<le> 32) \<or> c = 133 \<or> c = 160 \<or> c = 5760 \<or>
     (8192 \<le> c \<and> c \<le> 8202) \<or> c = 8232 \<or> c = 8233 \<or> c = 8239 \<or> c = 8287 \<or> c = 12288"

definition strip :: "ustr \<Rightarrow> ustr" where
  "strip s = rev (dropWhile isspace (rev (dropWhile isspace s)))"

text \<open>
  What the Python runtime contributes beyond the text of \<^verbatim>\<open>server.py\<close>:
  \<^item> \<open>int_of\<close> is \<^verbatim>\<open>int(s)\<close>, with \<open>None\<close> for \<^verbatim>\<open>ValueError\<close>;
  \<^item> \<open>lower_ext\<close> is the lower-case form of one code point beyond ASCII, given the
    code points before and after it (the lower case of a capital sigma depends on them);
  \<^item> \<open>not_in_subpath\<close> is the text of the \<^verbatim>\<open>ValueError\<close> of \<^verbatim>\<open>relative_to\<close>.
  The lower case of an ASCII code point is fixed here: a capital letter goes to its
  small letter, every other ASCII code point to itself.
\<close>

record pyrt =
  int_of :: "ustr \<Rightarrow> int option"
  lower_ext :: "ustr \<Rightarrow> nat \<Rightarrow> ustr \<Rightarrow> ustr"
  not_in_subpath :: "ustr \<Rightarrow> ustr \<Rightarrow> ustr"

definition lower_cp :: "pyrt \<Rightarrow> ustr \<Rightarrow> nat \<Rightarrow> ustr \<Rightarrow> ustr" where
  "lower_cp rt pre c post =
     (if 65 \<le> c \<and> c \<le> 90 then [c + 32]
      else if c < 128 then [c]
      else lower_ext rt pre c post)"

fun lower_go :: "pyrt \<Rightarrow> ustr \<Rightarrow> ustr \<Rightarrow> ustr" where
  "lower_go rt pre [] = []"
| "lower_go rt pre (c # cs) = lower_cp rt pre c cs @ lower_go rt (pre @ [c]) cs"

definition lower :: "pyrt \<Rightarrow> ustr \<Rightarrow> ustr" where
  "lower rt s = lower_go rt [] s"

text \<open>
  An instance of the runtime for evaluating the model on ASCII text: \<open>ascii_int\<close> reads an
  optional sign and decimal digits, single underscores allowed between digits, with
  white space around, as \<^verbatim>\<open>int\<close> does.
\<close>

fun digits_value :: "int \<Rightarrow> bool \<Rightarrow> ustr \<Rightarrow> int option" where
  "digits_value acc after_digit [] = (if after_digit then Some acc else None)"
| "digits_value acc after_digit (c # cs) =
     (if 48 \<le> c \<and> c \<le> 57 then digits_value (10 * acc + int (c - 48)) True cs
      else if c = 95 \<and> after_digit then digits_value acc False cs
      else None)"

definition ascii_int :: "ustr \<Rightarrow> int option" where
  "ascii_int s =
     (case strip s of
        [] \<Rightarrow> None
      | c # cs \<Rightarrow>
          if c = 45 then map_option uminus (digits_value 0 False cs)
          else if c = 43 then digits_value 0 False cs
          else digits_value 0 False (c # cs))"

definition ascii_rt :: pyrt where
  "ascii_rt = \<lparr> int_of = ascii_int, lower_ext = (\<lambda>pre c post. [c]),
                 not_in_subpath = (\<lambda>p q. p @ u '' is not in the subpath of '' @ q) \<rparr>"

section \<open>Paths\<close>

text \<open>
  A \<^verbatim>\<open>pathlib\<close> path on POSIX: its root (\<^verbatim>\<open>""\<close> for a relative path, \<^verbatim>\<open>"/"\<close>, or
  \<^verbatim>\<open>"//"\<close> when the text starts with exactly two slashes) and its names. Parsing drops
  empty names and \<^verbatim>\<open>"."\<close>, and keeps \<^verbatim>\<open>".."\<close>.
\<close>

datatype path = Path (anchor: ustr) (names: "ustr list")

definition splitroot :: "ustr \<Rightarrow> ustr" where
  "splitroot s =
     (if startswith s (u ''///'') then u ''/''
      else if startswith s (u ''//'') then u ''//''
      else if startswith s (u ''/'') then u ''/''
      else [])"

definition path_of :: "ustr \<Rightarrow> path" where
  "path_of s = Path (splitroot s) (filter (\<lambda>x. x \<noteq> [] \<and> x \<noteq> u ''.'') (split s (u ''/'')))"

definition path_str :: "path \<Rightarrow> ustr" where
  "path_str p =
     (if anchor p = [] \<and> names p = [] then u ''.'' else anchor p @ join (u ''/'') (names p))"

text \<open>\<^verbatim>\<open>p / s\<close>: a right operand with a root replaces the left one.\<close>

definition path_join :: "path \<Rightarrow> ustr \<Rightarrow> path" where
  "path_join p s =
     (let q = path_of s in if anchor q \<noteq> [] then q else Path (anchor p) (names p @ names q))"

definition parent :: "path \<Rightarrow> path" where
  "parent p = Path (anchor p) (butlast (names p))"

definition name :: "path \<Rightarrow> ustr" where
  "name p = (if names p = [] then [] else last (names p))"

text \<open>
  \<^verbatim>\<open>p.stem\<close>: the name up to its last dot, unless that dot is the first or the last code
  point of the name. \<open>rfind_dot\<close> is the number of code points before the last dot.
\<close>

definition rfind_dot :: "ustr \<Rightarrow> nat option" where
  "rfind_dot s = (if 46 \<in> set s then Some (length s - 1 - length (takeWhile (\<lambda>c. c \<noteq> 46) (rev s))) else None)"

definition stem :: "path \<Rightarrow> ustr" where
  "stem p =
     (case rfind_dot (name p) of
        None \<Rightarrow> name p
      | Some i \<Rightarrow> if 0 < i \<and> i < length (name p) - 1 then take i (name p) else name p)"

section \<open>Exceptions, processes and the operating system\<close>

text \<open>
  The exceptions that derive from \<^verbatim>\<open>Exception\<close>, each with its \<^verbatim>\<open>str(e)\<close>:
  \<^verbatim>\<open>subprocess.TimeoutExpired\<close>, which \<^verbatim>\<open>run_command\<close> catches apart, and the others.
\<close>

datatype exn = TimeoutExpired ustr | Exception ustr

fun exn_str :: "exn \<Rightarrow> ustr" where
  "exn_str (TimeoutExpired m) = m"
| "exn_str (Exception m) = m"

text \<open>\<^verbatim>\<open>p.relative_to(q)\<close> raises \<^verbatim>\<open>ValueError\<close> unless \<open>q\<close> is \<open>p\<close> or one of its parents.\<close>

definition relative_to :: "pyrt \<Rightarrow> path \<Rightarrow> path \<Rightarrow> exn + path" where
  "relative_to rt p q =
     (if anchor p = anchor q \<and> prefix (names q) (names p)
      then Inr (Path [] (drop (length (names q)) (names p)))
      else Inl (Exception (not_in_subpath rt (path_str p) (path_str q))))"

text \<open>The \<^verbatim>\<open>CompletedProcess\<close> of \<^verbatim>\<open>subprocess.run(..., capture_output=True, text=True)\<close>.\<close>

record completed =
  proc_returncode :: int
  proc_stdout :: ustr
  proc_stderr :: ustr

text \<open>
  The operating system, over a type \<open>'w\<close> of its states: the probes and effects that
  \<^verbatim>\<open>server.py\<close> uses. \<open>os_mkdir\<close> is \<^verbatim>\<open>Path.mkdir(exist_ok=True)\<close>, \<open>os_run\<close> is
  \<^verbatim>\<open>subprocess.run\<close> of a command in a working directory with a timeout in seconds; what
  raises returns the exception with the state it left behind. The two probes answer
  in every state: a probe that itself raises is outside the model.
\<close>

record 'w os =
  os_exists :: "'w \<Rightarrow> path \<Rightarrow> bool"
  os_is_dir :: "'w \<Rightarrow> path \<Rightarrow> bool"
  os_mkdir :: "'w \<Rightarrow> path \<Rightarrow> exn option \<times> 'w"
  os_run :: "'w \<Rightarrow> ustr list \<Rightarrow> ustr option \<Rightarrow> nat option \<Rightarrow> (exn + completed) \<times> 'w"
  os_read_text :: "'w \<Rightarrow> path \<Rightarrow> exn + ustr"
  os_stat_size :: "'w \<Rightarrow> path \<Rightarrow> exn + nat"
  os_rmtree :: "'w \<Rightarrow> path \<Rightarrow> exn option \<times> 'w"

text \<open>
  The state a request runs in: the operating system's state and, as a record of what
  was done, every process invocation so far with its arguments and its outcome.
\<close>

record call =
  call_cmd :: "ustr list"
  call_cwd :: "ustr option"
  call_timeout :: "nat option"
  call_outcome :: "exn + completed"

record 'w state =
  world :: 'w
  calls :: "call list"

definition subprocess_run ::
  "'w os \<Rightarrow> ustr list \<Rightarrow> ustr option \<Rightarrow> nat option \<Rightarrow> 'w state \<Rightarrow> (exn + completed) \<times> 'w state" where
  "subprocess_run os cmd cwd t s =
     (case os_run os (world s) cmd cwd t of
        (r, w) \<Rightarrow>
          (r, \<lparr> world = w,
                calls = calls s @ [\<lparr> call_cmd = cmd, call_cwd = cwd, call_timeout = t, call_outcome = r \<rparr>] \<rparr>))"

definition mkdir :: "'w os \<Rightarrow> path \<Rightarrow> 'w state \<Rightarrow> (exn + unit) \<times> 'w state" where
  "mkdir os p s =
     (case os_mkdir os (world s) p of
        (Some e, w) \<Rightarrow> (Inl e, s\<lparr> world := w \<rparr>)
      | (None, w) \<Rightarrow> (Inr (), s\<lparr> world := w \<rparr>))"

text \<open>Sequencing of steps that may raise: an exception skips the rest.\<close>

definition bind_exn ::
  "(exn + 'a) \<times> 's \<Rightarrow> ('a \<Rightarrow> 's \<Rightarrow> (exn + 'b) \<times> 's) \<Rightarrow> (exn + 'b) \<times> 's" where
  "bind_exn m f = (case m of (Inl e, s) \<Rightarrow> (Inl e, s) | (Inr x, s) \<Rightarrow> f x s)"

definition lift_exn :: "exn + 'a \<Rightarrow> 's \<Rightarrow> (exn + 'a) \<times> 's" where
  "lift_exn r s = (r, s)"

section \<open>The compilation dispatcher\<close>

text \<open>The dictionary that \<^verbatim>\<open>run_command\<close> and the two compilation functions return.\<close>

record cmd_result =
  success :: bool
  returncode :: int
  stdout :: ustr
  stderr :: ustr

text \<open>
  The argument loop of \<^verbatim>\<open>run_docker_compilation\<close> (lines 108 to 129), over the arguments
  from index \<open>i\<close> on.
\<close>

record compile_args =
  arg_file_path :: "ustr option"
  arg_compiler :: ustr
  arg_use_bibtex :: bool
  arg_quick :: bool

fun parse_args :: "ustr list \<Rightarrow> compile_args \<Rightarrow> compile_args" where
  "parse_args [] a = a"
| "parse_args (arg # rest) a =
     (if arg = u ''-c'' \<and> rest \<noteq> [] then parse_args (tl rest) (a\<lparr> arg_compiler := hd rest \<rparr>)
      else if arg = u ''-b'' then parse_args rest (a\<lparr> arg_use_bibtex := True \<rparr>)
      else if arg = u ''-q'' then parse_args rest (a\<lparr> arg_quick := True \<rparr>)
      else if \<not> startswith arg (u ''-'') then parse_args rest (a\<lparr> arg_file_path := Some arg \<rparr>)
      else parse_args rest a)"

definition initial_args :: compile_args where
  "initial_args = \<lparr> arg_file_path = None, arg_compiler = u ''lualatex'',
                     arg_use_bibtex = False, arg_quick = False \<rparr>"

text \<open>
  The passes, which \<^verbatim>\<open>run_docker_compilation\<close> (lines 187 to 266) and
  \<^verbatim>\<open>run_direct_latex_compilation\<close> (lines 296 to 370) spell out alike; they differ in the
  working directory of the processes, the first line of the output and the two commands.
  \<open>collect\<close> is the bookkeeping after each process: its output is appended, its error
  output only when it is not empty.
\<close>

type_synonym outputs = "ustr list \<times> ustr list"

definition collect :: "ustr \<Rightarrow> completed \<Rightarrow> outputs \<Rightarrow> outputs" where
  "collect label r out =
     (fst out @ [label @ proc_stdout r],
      if proc_stderr r \<noteq> [] then snd out @ [proc_stderr r] else snd out)"

definition py_bool :: "bool \<Rightarrow> ustr" where
  "py_bool b = (if b then u ''True'' else u ''False'')"

definition bibtex_passes ::
  "'w os \<Rightarrow> ustr option \<Rightarrow> ustr list \<Rightarrow> exn + ustr list \<Rightarrow> path \<Rightarrow> bool \<Rightarrow> outputs \<Rightarrow> 'w state
     \<Rightarrow> (exn + outputs) \<times> 'w state" where
  "bibtex_passes os cwd compile_cmd bibtex_cmd aux_file use_bibtex out s =
     (if use_bibtex \<and> os_exists os (world s) aux_file then
        bind_exn (lift_exn bibtex_cmd s) (\<lambda>cmd s.
        bind_exn (subprocess_run os cmd cwd None s) (\<lambda>result_bib s.
        bind_exn (subprocess_run os compile_cmd cwd None s) (\<lambda>result2 s.
          (Inr (collect [] result2 (collect (u ''BibTeX: '') result_bib out)), s))))
      else (Inr out, s))"

definition second_pass ::
  "'w os \<Rightarrow> ustr option \<Rightarrow> ustr list \<Rightarrow> bool \<Rightarrow> outputs \<Rightarrow> 'w state \<Rightarrow> (exn + outputs) \<times> 'w state" where
  "second_pass os cwd compile_cmd quick out s =
     (if \<not> quick then
        bind_exn (subprocess_run os compile_cmd cwd None s) (\<lambda>result3 s.
          (Inr (collect [] result3 out), s))
      else (Inr out, s))"

definition pdf_check :: "'w os \<Rightarrow> path \<Rightarrow> outputs \<Rightarrow> 'w state \<Rightarrow> cmd_result" where
  "pdf_check os pdf_file out s =
     (let ok = os_exists os (world s) pdf_file in
      \<lparr> success = ok,
        returncode = (if ok then 0 else 1),
        stdout = join [10] (fst out @ [[9989] @ u '' Compilation completed, PDF exists: '' @ py_bool ok]),
        stderr = join [10] (snd out) \<rparr>)"

definition compile_passes ::
  "'w os \<Rightarrow> ustr option \<Rightarrow> ustr \<Rightarrow> ustr list \<Rightarrow> exn + ustr list \<Rightarrow> path \<Rightarrow> path \<Rightarrow> bool \<Rightarrow> bool
     \<Rightarrow> 'w state \<Rightarrow> (exn + cmd_result) \<times> 'w state" where
  "compile_passes os cwd banner compile_cmd bibtex_cmd aux_file pdf_file use_bibtex quick s =
     bind_exn (subprocess_run os compile_cmd cwd (Some 180) s) (\<lambda>result1 s.
       let out = collect [] result1 ([banner], []) in
       if proc_returncode result1 \<noteq> 0 then
         (Inr \<lparr> success = False, returncode = proc_returncode result1,
                 stdout = join [10] (fst out), stderr = join [10] (snd out) \<rparr>, s)
       else
         bind_exn (bibtex_passes os cwd compile_cmd bibtex_cmd aux_file use_bibtex out s) (\<lambda>out s.
         bind_exn (second_pass os cwd compile_cmd quick out s) (\<lambda>out s.
           (Inr (pdf_check os pdf_file out s), s))))"

text \<open>
  \<^verbatim>\<open>run_direct_latex_compilation\<close>: the body of its \<^verbatim>\<open>try\<close>, then the function with its
  \<^verbatim>\<open>except Exception\<close>.
\<close>

definition app :: path where
  "app = path_of (u ''/app'')"

definition direct_compile_cmd :: "ustr \<Rightarrow> path \<Rightarrow> path \<Rightarrow> ustr list" where
  "direct_compile_cmd compiler rel_output rel_tex =
     [u ''docker'', u ''exec'', u ''api-latex-engine-1'', compiler,
      u ''-interaction=nonstopmode'', u ''-halt-on-error'',
      u ''-output-directory=/workspace/'' @ path_str rel_output,
      u ''/workspace/'' @ path_str rel_tex]"

definition direct_bibtex_cmd :: "path \<Rightarrow> ustr \<Rightarrow> ustr list" where
  "direct_bibtex_cmd rel_output base_name =
     [u ''docker'', u ''exec'', u ''api-latex-engine-1'', u ''bibtex'',
      u ''/workspace/'' @ path_str rel_output @ u ''/'' @ base_name]"

definition run_direct_body ::
  "'w os \<Rightarrow> pyrt \<Rightarrow> path \<Rightarrow> ustr \<Rightarrow> bool \<Rightarrow> bool \<Rightarrow> 'w state \<Rightarrow> (exn + cmd_result) \<times> 'w state" where
  "run_direct_body os rt tex_file compiler use_bibtex quick s =
     (let work_dir = parent tex_file;
          output_dir = path_join work_dir (u ''output'');
          base_name = stem tex_file
      in
      bind_exn (mkdir os output_dir s) (\<lambda>_ s.
      bind_exn (lift_exn (relative_to rt output_dir app) s) (\<lambda>rel_output s.
      bind_exn (lift_exn (relative_to rt tex_file app) s) (\<lambda>rel_tex s.
        compile_passes os None ([128260] @ u '' Compilation via latex-engine container'')
          (direct_compile_cmd compiler rel_output rel_tex)
          (map_sum id (\<lambda>rel. direct_bibtex_cmd rel base_name) (relative_to rt output_dir app))
          (path_join output_dir (base_name @ u ''.aux''))
          (path_join output_dir (base_name @ u ''.pdf''))
          use_bibtex quick s))))"

definition run_direct_latex_compilation ::
  "'w os \<Rightarrow> pyrt \<Rightarrow> path \<Rightarrow> ustr \<Rightarrow> bool \<Rightarrow> bool \<Rightarrow> 'w state \<Rightarrow> cmd_result \<times> 'w state" where
  "run_direct_latex_compilation os rt tex_file compiler use_bibtex quick s =
     (case run_direct_body os rt tex_file compiler use_bibtex quick s of
        (Inr r, s') \<Rightarrow> (r, s')
      | (Inl e, s') \<Rightarrow>
          (\<lparr> success = False, returncode = 1, stdout = [],
             stderr = u ''Direct compilation error: '' @ exn_str e \<rparr>, s'))"

text \<open>
  \<^verbatim>\<open>run_docker_compilation\<close>. \<open>root\<close> is the module's \<^verbatim>\<open>PROJECT_ROOT\<close>. The \<^verbatim>\<open>cwd\<close>
  argument of the source is never read, so the model leaves it out.
\<close>

definition is_in_docker :: "'w os \<Rightarrow> path \<Rightarrow> 'w \<Rightarrow> bool" where
  "is_in_docker os root w \<longleftrightarrow> os_exists os w app \<and> startswith (path_str root) (u ''/app'')"

definition file_not_found :: "ustr \<Rightarrow> cmd_result" where
  "file_not_found file_path =
     \<lparr> success = False, returncode = 1, stdout = [], stderr = u ''File not found: '' @ file_path \<rparr>"

definition compose_compile_cmd :: "ustr \<Rightarrow> path \<Rightarrow> ustr \<Rightarrow> ustr list" where
  "compose_compile_cmd compiler rel_work tex_name =
     [u ''docker'', u ''compose'', u ''run'', u ''--rm'',
      u ''-w'', u ''/workspace/'' @ path_str rel_work,
      u ''latex'', compiler,
      u ''-interaction=nonstopmode'', u ''-halt-on-error'',
      u ''-output-directory=output'', tex_name]"

definition compose_bibtex_cmd :: "path \<Rightarrow> ustr \<Rightarrow> ustr list" where
  "compose_bibtex_cmd rel_output base_name =
     [u ''docker'', u ''compose'', u ''run'', u ''--rm'',
      u ''-w'', u ''/workspace/'' @ path_str rel_output,
      u ''latex'', u ''bibtex'', base_name]"

definition run_compose_body ::
  "'w os \<Rightarrow> pyrt \<Rightarrow> path \<Rightarrow> path \<Rightarrow> ustr \<Rightarrow> bool \<Rightarrow> bool \<Rightarrow> 'w state \<Rightarrow> (exn + cmd_result) \<times> 'w state" where
  "run_compose_body os rt root tex_file compiler use_bibtex quick s =
     (let work_dir = parent tex_file;
          output_dir = path_join work_dir (u ''output'');
          base_name = stem tex_file
      in
      bind_exn (mkdir os output_dir s) (\<lambda>_ s.
      bind_exn (lift_exn (relative_to rt work_dir root) s) (\<lambda>rel_work s.
        compile_passes os (Some (path_str root)) ([128260] @ u '' Compilation via Docker'')
          (compose_compile_cmd compiler rel_work (name tex_file))
          (map_sum id (\<lambda>rel. compose_bibtex_cmd rel base_name) (relative_to rt output_dir root))
          (path_join output_dir (base_name @ u ''.aux''))
          (path_join output_dir (base_name @ u ''.pdf''))
          use_bibtex quick s)))"

definition run_docker_body ::
  "'w os \<Rightarrow> pyrt \<Rightarrow> path \<Rightarrow> ustr list \<Rightarrow> 'w state \<Rightarrow> (exn + cmd_result) \<times> 'w state" where
  "run_docker_body os rt root original_cmd s =
     (let a = parse_args (drop 1 original_cmd) initial_args in
      case arg_file_path a of
        None \<Rightarrow>
          (Inr \<lparr> success = False, returncode = 1, stdout = [],
                  stderr = u ''No file path specified'' \<rparr>, s)
      | Some file_path \<Rightarrow>
          if file_path = [] then
            (Inr \<lparr> success = False, returncode = 1, stdout = [],
                    stderr = u ''No file path specified'' \<rparr>, s)
          else if is_in_docker os root (world s) then
            (let tex_file = path_join root file_path in
             if \<not> os_exists os (world s) tex_file then
               (let workspace_path = path_of (replace (path_str tex_file) (u ''/app'') (u ''/workspace'')) in
                if os_exists os (world s) workspace_path then
                  (case run_direct_latex_compilation os rt workspace_path (arg_compiler a)
                          (arg_use_bibtex a) (arg_quick a) s of
                     (r, s') \<Rightarrow> (Inr r, s'))
                else (Inr (file_not_found file_path), s))
             else
               (case run_direct_latex_compilation os rt tex_file (arg_compiler a)
                       (arg_use_bibtex a) (arg_quick a) s of
                  (r, s') \<Rightarrow> (Inr r, s')))
          else
            (let tex_file = path_join root file_path in
             if \<not> os_exists os (world s) tex_file then (Inr (file_not_found file_path), s)
             else run_compose_body os rt root tex_file (arg_compiler a)
                    (arg_use_bibtex a) (arg_quick a) s))"

definition run_docker_compilation ::
  "'w os \<Rightarrow> pyrt \<Rightarrow> path \<Rightarrow> ustr list \<Rightarrow> 'w state \<Rightarrow> cmd_result \<times> 'w state" where
  "run_docker_compilation os rt root original_cmd s =
     (case run_docker_body os rt root original_cmd s of
        (Inr r, s') \<Rightarrow> (r, s')
      | (Inl e, s') \<Rightarrow>
          (\<lparr> success = False, returncode = 1, stdout = [],
             stderr = u ''Docker compilation error: '' @ exn_str e \<rparr>, s'))"

section \<open>The process runner\<close>

text \<open>
  \<^verbatim>\<open>run_command\<close>: the body of its \<^verbatim>\<open>try\<close>, then the function with its two handlers.
  A command whose first word contains \<^verbatim>\<open>compile.sh\<close> goes to the dispatcher; any other
  is run with a timeout of 300 seconds, in \<^verbatim>\<open>cwd\<close> or, when that is \<^verbatim>\<open>None\<close> or empty,
  in the project root.
\<close>

definition to_compiler :: "ustr list \<Rightarrow> bool" where
  "to_compiler cmd \<longleftrightarrow> 0 < length cmd \<and> contains (hd cmd) (u ''compile.sh'')"

definition cwd_or_root :: "path \<Rightarrow> ustr option \<Rightarrow> ustr" where
  "cwd_or_root root cwd =
     (case cwd of None \<Rightarrow> path_str root | Some d \<Rightarrow> if d = [] then path_str root else d)"

definition run_command_body ::
  "'w os \<Rightarrow> pyrt \<Rightarrow> path \<Rightarrow> ustr list \<Rightarrow> ustr option \<Rightarrow> 'w state \<Rightarrow> (exn + cmd_result) \<times> 'w state" where
  "run_command_body os rt root cmd cwd s =
     (if to_compiler cmd then
        (case run_docker_compilation os rt root cmd s of (r, s') \<Rightarrow> (Inr r, s'))
      else
        bind_exn (subprocess_run os cmd (Some (cwd_or_root root cwd)) (Some 300) s) (\<lambda>result s.
          (Inr \<lparr> success = (proc_returncode result = 0), returncode = proc_returncode result,
                  stdout = proc_stdout result, stderr = proc_stderr result \<rparr>, s)))"

definition run_command ::
  "'w os \<Rightarrow> pyrt \<Rightarrow> path \<Rightarrow> ustr list \<Rightarrow> ustr option \<Rightarrow> 'w state \<Rightarrow> cmd_result \<times> 'w state" where
  "run_command os rt root cmd cwd s =
     (case run_command_body os rt root cmd cwd s of
        (Inr r, s') \<Rightarrow> (r, s')
      | (Inl (TimeoutExpired m), s') \<Rightarrow>
          (\<lparr> success = False, returncode = - 1, stdout = [],
             stderr = u ''Command timed out after 5 minutes'' \<rparr>, s')
      | (Inl (Exception m), s') \<Rightarrow>
          (\<lparr> success = False, returncode = - 1, stdout = [], stderr = m \<rparr>, s'))"

section \<open>The request handlers\<close>

text \<open>
  The envelope \<^verbatim>\<open>ApiResponse\<close>; a handler returns it with the HTTP status. \<open>scripts_dir\<close> is
  the module's \<^verbatim>\<open>SCRIPTS_DIR\<close>.
\<close>

record 'd api_response =
  api_success :: bool
  api_message :: ustr
  api_data :: "'d option"
  api_errors :: "ustr list option"

definition scripts_dir :: "path \<Rightarrow> path" where
  "scripts_dir root = path_join root (u ''scripts'')"

subsection \<open>The quality check\<close>

text \<open>
  The three literals of the parser, by their code points: the error marker (a cross
  mark, a space, three katakana and a colon), the warning marker (a warning sign with its
  variation selector, two spaces, two kanji and a colon) and the counter word that ends
  a count.
\<close>

definition error_marker :: ustr where
  "error_marker = [10060, 32, 12456, 12521, 12540, 58]"

definition warning_marker :: ustr where
  "warning_marker = [9888, 65039, 32, 32, 35686, 21578, 58]"

definition counter_word :: ustr where
  "counter_word = [20491]"

text \<open>
  \<^verbatim>\<open>int(line.split(marker)[1].split(counter)[0].strip())\<close> inside its \<^verbatim>\<open>try\<close>: \<open>None\<close> when
  an index is out of range or \<^verbatim>\<open>int\<close> raises, which the bare \<^verbatim>\<open>except\<close> passes over.
\<close>

definition count_after :: "pyrt \<Rightarrow> ustr \<Rightarrow> ustr \<Rightarrow> int option" where
  "count_after rt marker line =
     (case split line marker of
        _ # following # _ \<Rightarrow>
          (case split following counter_word of
             text # _ \<Rightarrow> int_of rt (strip text)
           | [] \<Rightarrow> None)
      | _ \<Rightarrow> None)"

definition is_suggestion :: "ustr \<Rightarrow> bool" where
  "is_suggestion line \<longleftrightarrow>
     startswith (strip line) (u ''1.'') \<or> startswith (strip line) (u ''2.'') \<or>
     startswith (strip line) (u ''3.'') \<or> startswith (strip line) (u ''4.'') \<or>
     startswith (strip line) (u ''5.'')"

text \<open>The local variables of the loop over the output lines, and one turn of the loop.\<close>

record tally =
  errors :: int
  warnings :: int
  suggestions :: "ustr list"

definition scan_line :: "pyrt \<Rightarrow> tally \<Rightarrow> ustr \<Rightarrow> tally" where
  "scan_line rt t line =
     (if contains line error_marker then
        (case count_after rt error_marker line of Some n \<Rightarrow> t\<lparr> errors := n \<rparr> | None \<Rightarrow> t)
      else if contains line warning_marker then
        (case count_after rt warning_marker line of Some n \<Rightarrow> t\<lparr> warnings := n \<rparr> | None \<Rightarrow> t)
      else if is_suggestion line then t\<lparr> suggestions := suggestions t @ [strip line] \<rparr>
      else t)"

fun scan_lines :: "pyrt \<Rightarrow> tally \<Rightarrow> ustr list \<Rightarrow> tally" where
  "scan_lines rt t [] = t"
| "scan_lines rt t (line # rest) = scan_lines rt (scan_line rt t line) rest"

definition parse_output :: "pyrt \<Rightarrow> ustr \<Rightarrow> tally" where
  "parse_output rt out = scan_lines rt \<lparr> errors = 0, warnings = 0, suggestions = [] \<rparr> (split out [10])"

definition quality_score :: "int \<Rightarrow> int \<Rightarrow> int" where
  "quality_score e w = max 0 (100 - e * 20 - w * 5)"

definition quality_level :: "int \<Rightarrow> ustr" where
  "quality_level score =
     (if score \<ge> 90 then u ''excellent''
      else if score \<ge> 70 then u ''good''
      else if score \<ge> 50 then u ''needs_improvement''
      else u ''poor'')"

record quality_data =
  q_file_path :: ustr
  q_quality_score :: int
  q_quality_level :: ustr
  q_errors :: int
  q_warnings :: int
  q_suggestions :: "ustr list"
  q_full_output :: ustr
  q_check_successful :: bool

text \<open>
  \<^verbatim>\<open>quality_check\<close>. The request is what \<^verbatim>\<open>request.get_json()\<close> and
  \<^verbatim>\<open>data.get('file_path')\<close> give: an exception, no value, or the text of the field.
\<close>

definition missing_file_path :: "'d api_response \<times> nat" where
  "missing_file_path =
     (\<lparr> api_success = False, api_message = u ''file_path is required'', api_data = None,
        api_errors = Some [u ''No file_path provided in request''] \<rparr>, 400)"

definition quality_check_body ::
  "'w os \<Rightarrow> pyrt \<Rightarrow> path \<Rightarrow> exn + ustr option \<Rightarrow> 'w state
     \<Rightarrow> (exn + quality_data api_response \<times> nat) \<times> 'w state" where
  "quality_check_body os rt root req s =
     bind_exn (lift_exn req s) (\<lambda>field s.
       case field of
         None \<Rightarrow> (Inr missing_file_path, s)
       | Some file_path \<Rightarrow>
           if file_path = [] then (Inr missing_file_path, s)
           else if \<not> os_exists os (world s) (path_join root file_path) then
             (Inr (\<lparr> api_success = False, api_message = u ''File not found'', api_data = None,
                      api_errors = Some [u ''File does not exist: '' @ file_path] \<rparr>, 404), s)
           else
             (case run_command os rt root
                     [path_str (path_join (scripts_dir root) (u ''check-quality.sh'')), file_path]
                     None s of
                (result, s) \<Rightarrow>
                  let t = parse_output rt (stdout result);
                      score = quality_score (errors t) (warnings t)
                  in
                  (Inr (\<lparr> api_success = True, api_message = u ''Quality check completed'',
                           api_data = Some \<lparr> q_file_path = file_path,
                                             q_quality_score = score,
                                             q_quality_level = quality_level score,
                                             q_errors = errors t,
                                             q_warnings = warnings t,
                                             q_suggestions = suggestions t,
                                             q_full_output = stdout result,
                                             q_check_successful = success result \<rparr>,
                           api_errors = None \<rparr>, 200), s)))"

definition quality_check ::
  "'w os \<Rightarrow> pyrt \<Rightarrow> path \<Rightarrow> exn + ustr option \<Rightarrow> 'w state
     \<Rightarrow> (quality_data api_response \<times> nat) \<times> 'w state" where
  "quality_check os rt root req s =
     (case quality_check_body os rt root req s of
        (Inr r, s') \<Rightarrow> (r, s')
      | (Inl e, s') \<Rightarrow>
          ((\<lparr> api_success = False, api_message = u ''Quality check failed'', api_data = None,
              api_errors = Some [exn_str e] \<rparr>, 500), s'))"

subsection \<open>The log of a failed compilation\<close>

text \<open>
  Lines 712 to 730 of \<^verbatim>\<open>compile_document\<close>: \<open>file_path\<close> is the document, \<open>ok\<close> is
  \<^verbatim>\<open>result["success"]\<close>. The \<^verbatim>\<open>except Exception: pass\<close> leaves \<^verbatim>\<open>log_info\<close> at \<^verbatim>\<open>None\<close>.
\<close>

definition error_line :: "pyrt \<Rightarrow> ustr \<Rightarrow> bool" where
  "error_line rt line \<longleftrightarrow>
     startswith line (u ''!'') \<or> contains line (u ''Error'') \<or> contains (lower rt line) (u ''error'')"

fun collect_error_lines :: "pyrt \<Rightarrow> ustr list \<Rightarrow> ustr list \<Rightarrow> ustr list" where
  "collect_error_lines rt error_lines [] = error_lines"
| "collect_error_lines rt error_lines (line # rest) =
     collect_error_lines rt (if error_line rt line then error_lines @ [strip line] else error_lines) rest"

definition scrape :: "pyrt \<Rightarrow> ustr \<Rightarrow> ustr list" where
  "scrape rt log_content = take 10 (collect_error_lines rt [] (split log_content [10]))"

record log_info =
  log_path :: ustr
  log_size :: nat
  log_error_lines :: "ustr list"

definition log_file :: "path \<Rightarrow> path" where
  "log_file file_path =
     path_join (path_join (parent file_path) (u ''output'')) (stem file_path @ u ''.log'')"

definition read_log :: "'w os \<Rightarrow> pyrt \<Rightarrow> path \<Rightarrow> path \<Rightarrow> bool \<Rightarrow> 'w \<Rightarrow> log_info option" where
  "read_log os rt root file_path ok w =
     (if os_exists os w (log_file file_path) \<and> \<not> ok then
        (case os_read_text os w (log_file file_path) of
           Inl e \<Rightarrow> None
         | Inr log_content \<Rightarrow>
             (case relative_to rt (log_file file_path) root of
                Inl e \<Rightarrow> None
              | Inr rel \<Rightarrow>
                  (case os_stat_size os w (log_file file_path) of
                     Inl e \<Rightarrow> None
                   | Inr n \<Rightarrow>
                       Some \<lparr> log_path = path_str rel, log_size = n,
                              log_error_lines = scrape rt log_content \<rparr>)))
      else None)"

subsection \<open>Deleting a project\<close>

record deleted =
  deleted_path :: ustr
  absolute_path :: ustr

definition rmtree :: "'w os \<Rightarrow> path \<Rightarrow> 'w state \<Rightarrow> (exn + unit) \<times> 'w state" where
  "rmtree os p s =
     (case os_rmtree os (world s) p of
        (Some e, w) \<Rightarrow> (Inl e, s\<lparr> world := w \<rparr>)
      | (None, w) \<Rightarrow> (Inr (), s\<lparr> world := w \<rparr>))"

definition delete_project_body ::
  "'w os \<Rightarrow> path \<Rightarrow> ustr \<Rightarrow> 'w state \<Rightarrow> (exn + deleted api_response \<times> nat) \<times> 'w state" where
  "delete_project_body os root project_path s =
     (let full_path = path_join root project_path in
      if \<not> os_exists os (world s) full_path then
        (Inr (\<lparr> api_success = False, api_message = u ''Project not found'', api_data = None,
                 api_errors = Some [u ''Project does not exist: '' @ project_path] \<rparr>, 404), s)
      else if \<not> os_is_dir os (world s) full_path then
        (Inr (\<lparr> api_success = False, api_message = u ''Path is not a directory'', api_data = None,
                 api_errors = Some [u ''Path is not a project directory: '' @ project_path] \<rparr>, 400), s)
      else if \<not> os_exists os (world s) (path_join full_path (u ''main.tex'')) then
        (Inr (\<lparr> api_success = False, api_message = u ''Invalid project directory'', api_data = None,
                 api_errors = Some [u ''Directory does not contain main.tex: '' @ project_path] \<rparr>, 400), s)
      else
        bind_exn (rmtree os full_path s) (\<lambda>_ s.
          (Inr (\<lparr> api_success = True, api_message = u ''Project deleted successfully'',
                   api_data = Some \<lparr> deleted_path = project_path,
                                     absolute_path = path_str full_path \<rparr>,
                   api_errors = None \<rparr>, 200), s)))"

definition delete_project ::
  "'w os \<Rightarrow> path \<Rightarrow> ustr \<Rightarrow> 'w state \<Rightarrow> (deleted api_response \<times> nat) \<times> 'w state" where
  "delete_project os root project_path s =
     (case delete_project_body os root project_path s of
        (Inr r, s') \<Rightarrow> (r, s')
      | (Inl e, s') \<Rightarrow>
          ((\<lparr> api_success = False, api_message = u ''Failed to delete project'', api_data = None,
              api_errors = Some [exn_str e] \<rparr>, 500), s'))"

section \<open>Notions the properties are stated with\<close>

text \<open>
  The file the dispatcher compiles (the variable \<^verbatim>\<open>tex_file\<close> once it is settled): inside
  the container, the file under \<^verbatim>\<open>/workspace\<close> when the one under the project root is
  missing; the file under the project root otherwise. The artifact is the file
  \<^verbatim>\<open>output/{basename}.pdf\<close> beside it.
\<close>

definition tex_file_of :: "'w os \<Rightarrow> path \<Rightarrow> 'w \<Rightarrow> ustr \<Rightarrow> path" where
  "tex_file_of os root w file_path =
     (if is_in_docker os root w \<and> \<not> os_exists os w (path_join root file_path)
      then path_of (replace (path_str (path_join root file_path)) (u ''/app'') (u ''/workspace''))
      else path_join root file_path)"

definition output_dir_of :: "path \<Rightarrow> path" where
  "output_dir_of tex_file = path_join (parent tex_file) (u ''output'')"

definition artifact :: "path \<Rightarrow> path" where
  "artifact tex_file = path_join (output_dir_of tex_file) (stem tex_file @ u ''.pdf'')"

text \<open>An invocation that raised instead of returning a completed process.\<close>

definition raised :: "call \<Rightarrow> bool" where
  "raised c = isl (call_outcome c)"

definition exit_code :: "call \<Rightarrow> int option" where
  "exit_code c = (case call_outcome c of Inl e \<Rightarrow> None | Inr r \<Rightarrow> Some (proc_returncode r))"

text \<open>
  What a run of the pass sequence leaves behind, from the state \<open>s\<close> to the state \<open>s'\<close> with
  the result \<open>r\<close>: a first invocation of the compiler command \<open>cc\<close> with 180 seconds, then
  invocations without a timeout; the result is that of the check for the artifact when
  the first invocation exits with 0 and no later one raises; and the compiler command is
  invoked again when the first invocation exits with 0, quick mode is off and only
  compiler invocations raise.
\<close>

definition ran_passes ::
  "'w os \<Rightarrow> ustr list \<Rightarrow> ustr option \<Rightarrow> path \<Rightarrow> bool \<Rightarrow> 'w state \<Rightarrow> 'w state \<Rightarrow> cmd_result \<Rightarrow> bool" where
  "ran_passes os cc cwd pdf quick s s' r \<longleftrightarrow>
     (\<exists>r1 later.
        calls s' = calls s @
          \<lparr> call_cmd = cc, call_cwd = cwd, call_timeout = Some 180, call_outcome = r1 \<rparr> # later
        \<and> (\<forall>c\<in>set later. call_timeout c = None \<and> call_cwd c = cwd)
        \<and> (\<forall>x. r1 = Inr x \<and> proc_returncode x = 0 \<and> (\<forall>c\<in>set later. \<not> raised c)
              \<longrightarrow> (\<exists>out. r = pdf_check os pdf out s'))
        \<and> (\<forall>x. r1 = Inr x \<and> proc_returncode x = 0 \<and> \<not> quick
                \<and> (\<forall>c\<in>set later. raised c \<longrightarrow> call_cmd c = cc)
              \<longrightarrow> (\<exists>c\<in>set later. call_cmd c = cc)))"

text \<open>
  The results of the two handlers of the dispatcher, for an exception \<open>e\<close>: that of
  \<^verbatim>\<open>run_direct_latex_compilation\<close> (lines 372 to 378) and that of \<^verbatim>\<open>run_docker_compilation\<close>
  (lines 268 to 274).
\<close>

definition direct_error :: "exn \<Rightarrow> cmd_result" where
  "direct_error e = \<lparr> success = False, returncode = 1, stdout = [],
             stderr = u ''Direct compilation error: '' @ exn_str e \<rparr>"

definition docker_error :: "exn \<Rightarrow> cmd_result" where
  "docker_error e = \<lparr> success = False, returncode = 1, stdout = [],
             stderr = u ''Docker compilation error: '' @ exn_str e \<rparr>"

text \<open>
  The parser and the scraper as the specification words them: the count is read after
  the first occurrence of the marker in the whole output, and the scraper returns the
  matching lines themselves.
\<close>

definition spec_first_count :: "pyrt \<Rightarrow> ustr \<Rightarrow> ustr \<Rightarrow> int" where
  "spec_first_count rt marker out = (case count_after rt marker out of Some n \<Rightarrow> n | None \<Rightarrow> 0)"

definition spec_error_line :: "pyrt \<Rightarrow> ustr \<Rightarrow> bool" where
  "spec_error_line rt line \<longleftrightarrow> startswith line (u ''!'') \<or> contains (lower rt line) (u ''error'')"

definition spec_scrape :: "pyrt \<Rightarrow> ustr \<Rightarrow> ustr list" where
  "spec_scrape rt log_content = take 10 (filter (spec_error_line rt) (split log_content [10]))"

section \<open>A small operating system to run the model on\<close>

text \<open>
  Files with their text and directories, as lists; a process is a function of the
  command and the files. \<open>latex_once\<close> writes the artifact and exits with 0 when the
  artifact is not there, and exits with 1 when it is; \<open>exits\<close> and \<open>raises\<close> do nothing
  but return.
\<close>

record toy_world =
  files :: "(path \<times> ustr) list"
  dirs :: "path list"

definition toy_os :: "(ustr list \<Rightarrow> toy_world \<Rightarrow> (exn + completed) \<times> toy_world) \<Rightarrow> toy_world os" where
  "toy_os proc =
     \<lparr> os_exists = (\<lambda>w p. p \<in> set (map fst (files w)) \<or> p \<in> set (dirs w)),
       os_is_dir = (\<lambda>w p. p \<in> set (dirs w)),
       os_mkdir = (\<lambda>w p.
         if p \<in> set (map fst (files w)) then (Some (Exception (u ''File exists'')), w)
         else if p \<in> set (dirs w) then (None, w)
         else (None, w\<lparr> dirs := p # dirs w \<rparr>)),
       os_run = (\<lambda>w cmd cwd t. proc cmd w),
       os_read_text = (\<lambda>w p.
         case map_of (files w) p of
           Some text \<Rightarrow> Inr text
         | None \<Rightarrow> Inl (Exception (u ''No such file''))),
       os_stat_size = (\<lambda>w p.
         case map_of (files w) p of
           Some text \<Rightarrow> Inr (length text)
         | None \<Rightarrow> Inl (Exception (u ''No such file''))),
       os_rmtree = (\<lambda>w p.
         (None, \<lparr> files = filter (\<lambda>f. \<not> prefix (names p) (names (fst f))) (files w),
                   dirs = filter (\<lambda>d. \<not> prefix (names p) (names d)) (dirs w) \<rparr>)) \<rparr>"

definition latex_once :: "path \<Rightarrow> ustr list \<Rightarrow> toy_world \<Rightarrow> (exn + completed) \<times> toy_world" where
  "latex_once pdf cmd w =
     (if pdf \<in> set (map fst (files w))
      then (Inr \<lparr> proc_returncode = 1, proc_stdout = [], proc_stderr = u ''again'' \<rparr>, w)
      else (Inr \<lparr> proc_returncode = 0, proc_stdout = [], proc_stderr = [] \<rparr>,
            w\<lparr> files := (pdf, []) # files w \<rparr>))"

definition exits :: "int \<Rightarrow> ustr list \<Rightarrow> toy_world \<Rightarrow> (exn + completed) \<times> toy_world" where
  "exits n cmd w = (Inr \<lparr> proc_returncode = n, proc_stdout = [], proc_stderr = [] \<rparr>, w)"

definition raises :: "exn \<Rightarrow> ustr list \<Rightarrow> toy_world \<Rightarrow> (exn + completed) \<times> toy_world" where
  "raises e cmd w = (Inl e, w)"

text \<open>
  A project root \<^verbatim>\<open>/srv\<close> on a host and \<^verbatim>\<open>/app\<close> in the container, each holding the
  document \<^verbatim>\<open>a.tex\<close> (the host also a directory \<^verbatim>\<open>notes\<close> with no document in it), and
  the command the compile handler builds for the document.
\<close>

definition srv :: path where
  "srv = Path [47] [u ''srv'']"

definition on_host :: "toy_world state" where
  "on_host = \<lparr> world = \<lparr> files = [(Path [47] [u ''srv'', u ''a.tex''], [])],
                         dirs = [Path [47] [u ''srv''], Path [47] [u ''srv'', u ''notes'']] \<rparr>,
               calls = [] \<rparr>"

definition in_container :: "toy_world state" where
  "in_container = \<lparr> world = \<lparr> files = [(Path [47] [u ''app'', u ''a.tex''], [])],
                              dirs = [Path [47] [u ''app'']] \<rparr>,
                    calls = [] \<rparr>"

definition compile_a :: "ustr list" where
  "compile_a = [u ''/srv/scripts/compile.sh'', u ''a.tex'']"

text \<open>
  The runs the properties are tried on. On the host: a compilation whose first pass
  writes the artifact and whose second pass exits with 1, and one whose compiler exits
  with 1 at once. In the container: a compilation whose compiler exits with 0 and
  writes nothing. A command that is not a compilation, a compilation and the quality
  script, each with a process that times out, cannot be launched or exits with 1.
\<close>

definition a_pdf :: path where
  "a_pdf = Path [47] [u ''srv'', u ''output'', u ''a.pdf'']"

definition host_run :: "cmd_result \<times> toy_world state" where
  "host_run = run_docker_compilation (toy_os (latex_once a_pdf)) ascii_rt srv compile_a on_host"

definition failing_run :: "cmd_result \<times> toy_world state" where
  "failing_run = run_docker_compilation (toy_os (exits 1)) ascii_rt srv compile_a on_host"

definition container_run :: "cmd_result \<times> toy_world state" where
  "container_run = run_docker_compilation (toy_os (exits 0)) ascii_rt app compile_a in_container"

definition timed_out :: exn where
  "timed_out = TimeoutExpired (u ''Command timed out'')"

definition no_such_file :: exn where
  "no_such_file = Exception (u ''No such file or directory'')"

definition list_files :: "ustr list" where
  "list_files = [u ''ls'']"

definition check_a :: "exn + ustr option" where
  "check_a = Inr (Some (u ''a.tex''))"

definition check_script :: "ustr list" where
  "check_script = [u ''/srv/scripts/check-quality.sh'', u ''a.tex'']"

text \<open>
  An output of the quality script with two lines that carry the error marker, one with
  two errors, three warnings and a suggestion, and a failed build whose log has twelve
  lines with the word \<^verbatim>\<open>error\<close>, each after a space.
\<close>

definition two_error_lines :: ustr where
  "two_error_lines =
     error_marker @ u '' 2'' @ counter_word @ [10] @ error_marker @ u '' 5'' @ counter_word"

definition sample_output :: ustr where
  "sample_output =
     error_marker @ u '' 2'' @ counter_word @ [10] @ warning_marker @ u '' 3'' @ counter_word @ [10] @
     u ''  1. Fix the errors''"

definition twelve_errors :: ustr where
  "twelve_errors =
     join [10] (map (\<lambda>c. u '' error '' @ [c]) [97, 98, 99, 100, 101, 102, 103, 104, 105, 106, 107, 108])"

definition failed_build :: toy_world where
  "failed_build =
     \<lparr> files = [(Path [47] [u ''srv'', u ''a.tex''], []),
                (Path [47] [u ''srv'', u ''output'', u ''a.log''], twelve_errors)],
       dirs = [Path [47] [u ''srv''], Path [47] [u ''srv'', u ''output'']] \<rparr>"

section \<open>Evaluating the model\<close>

text \<open>
  The definitions that the simplifier unfolds to run the model on a concrete input.
\<close>

lemmas string_defs = u_def split_def startswith_def strip_def isspace_def replace_def

lemmas path_defs = splitroot_def path_of_def path_str_def path_join_def parent_def name_def
  rfind_dot_def stem_def relative_to_def app_def

lemmas run_defs = subprocess_run_def mkdir_def bind_exn_def lift_exn_def collect_def py_bool_def
  bibtex_passes_def second_pass_def pdf_check_def compile_passes_def direct_compile_cmd_def
  direct_bibtex_cmd_def run_direct_body_def run_direct_latex_compilation_def is_in_docker_def
  file_not_found_def compose_compile_cmd_def compose_bibtex_cmd_def run_compose_body_def
  run_docker_body_def run_docker_compilation_def to_compiler_def cwd_or_root_def
  run_command_body_def run_command_def initial_args_def

lemmas toy_defs = toy_os_def latex_once_def exits_def raises_def srv_def on_host_def
  in_container_def compile_a_def ascii_rt_def ascii_int_def a_pdf_def host_run_def
  failing_run_def container_run_def timed_out_def no_such_file_def list_files_def check_a_def
  two_error_lines_def twelve_errors_def failed_build_def sample_output_def check_script_def

lemmas notion_defs = tex_file_of_def output_dir_of_def artifact_def raised_def exit_code_def

lemmas parse_defs = error_marker_def warning_marker_def counter_word_def count_after_def
  parse_output_def scan_line_def is_suggestion_def lower_def lower_cp_def scrape_def
  spec_scrape_def error_line_def spec_error_line_def spec_first_count_def log_file_def read_log_def

lemmas eval_defs = string_defs path_defs run_defs toy_defs notion_defs Let_def

section \<open>The quality score\<close>

text \<open>
  Claim C7, as the code has it. For every error count \<open>e\<close> and warning count \<open>w\<close> the score
  is \<open>max 0 (100 - 20 e - 5 w)\<close>; the level is \<^verbatim>\<open>excellent\<close> from 90 on, \<^verbatim>\<open>good\<close> from 70
  on, \<^verbatim>\<open>needs_improvement\<close> from 50 on and \<^verbatim>\<open>poor\<close> below 50. Two errors and three
  warnings give the score 45, and its level is \<^verbatim>\<open>poor\<close>.
\<close>

theorem quality_score_and_level:
  "quality_score e w = max 0 (100 - 20 * e - 5 * w)
   \<and> (quality_level s = u ''excellent'') = (90 \<le> s)
   \<and> (quality_level s = u ''good'') = (70 \<le> s \<and> s < 90)
   \<and> (quality_level s = u ''needs_improvement'') = (50 \<le> s \<and> s < 70)
   \<and> (quality_level s = u ''poor'') = (s < 50)
   \<and> quality_score 2 3 = 45
   \<and> quality_level (quality_score 2 3) = u ''poor''"
  by (simp add: quality_score_def quality_level_def u_def)

text \<open>
  Claim C7 as it is stated gives the level \<^verbatim>\<open>needs_improvement\<close> to two errors and three
  warnings. Their score is 45, below the 50 that \<^verbatim>\<open>needs_improvement\<close> asks for.
\<close>

theorem level_of_two_errors_three_warnings:
  "quality_score 2 3 = 45 \<and> quality_level (quality_score 2 3) \<noteq> u ''needs_improvement''"
  by (simp add: quality_score_def quality_level_def u_def)

section \<open>The parser of the quality output\<close>

text \<open>
  The loop keeps the last value it reads: each of the three variables after the loop,
  from the variable before it and the lines.
\<close>

lemma scan_lines_errors:
  "errors (scan_lines rt t ls) =
     last (errors t # List.map_filter (count_after rt error_marker) (filter (\<lambda>l. contains l error_marker) ls))"
  by (induction ls arbitrary: t) (auto simp: scan_line_def List.map_filter_simps split: option.splits)

lemma scan_lines_warnings:
  "warnings (scan_lines rt t ls) =
     last (warnings t # List.map_filter (count_after rt warning_marker)
            (filter (\<lambda>l. \<not> contains l error_marker \<and> contains l warning_marker) ls))"
  by (induction ls arbitrary: t) (auto simp: scan_line_def List.map_filter_simps split: option.splits)

lemma scan_lines_suggestions:
  "suggestions (scan_lines rt t ls) =
     suggestions t @ map strip (filter (\<lambda>l. \<not> contains l error_marker \<and> \<not> contains l warning_marker \<and> is_suggestion l) ls)"
  by (induction ls arbitrary: t) (auto simp: scan_line_def split: option.splits)

text \<open>
  Claim C6, as the code has it. The error count is the number that \<^verbatim>\<open>int\<close> reads between
  the error marker and the counter word on the last line that contains the error marker
  and on which this reading succeeds, and 0 when there is no such line; the warning
  count is read likewise from the lines that contain the warning marker and not the
  error marker. The suggestions are, in order and without the white space around them,
  the lines that contain neither marker and start, after white space, with \<^verbatim>\<open>1.\<close> to
  \<^verbatim>\<open>5.\<close>. A line on which the reading fails changes nothing, and the parser returns for
  every output.
\<close>

theorem parse_output_reads_last_counts:
  "errors (parse_output rt out) =
     last (0 # List.map_filter (count_after rt error_marker)
                 (filter (\<lambda>l. contains l error_marker) (split out [10])))
   \<and> warnings (parse_output rt out) =
     last (0 # List.map_filter (count_after rt warning_marker)
                 (filter (\<lambda>l. \<not> contains l error_marker \<and> contains l warning_marker) (split out [10])))
   \<and> suggestions (parse_output rt out) =
     map strip (filter (\<lambda>l. \<not> contains l error_marker \<and> \<not> contains l warning_marker \<and> is_suggestion l)
                  (split out [10]))"
  by (simp add: parse_output_def scan_lines_errors scan_lines_warnings scan_lines_suggestions)

text \<open>
  Claim C6 on an output with two errors, three warnings and one suggestion.
\<close>

theorem parse_output_reads_last_counts_witness:
  "errors (parse_output ascii_rt sample_output) = 2
   \<and> warnings (parse_output ascii_rt sample_output) = 3
   \<and> suggestions (parse_output ascii_rt sample_output) = [u ''1. Fix the errors'']"
  using parse_output_reads_last_counts[of ascii_rt sample_output]
  by (simp add: string_defs parse_defs toy_defs List.map_filter_simps)

text \<open>
  Claim C6 as it is stated reads the count after the first occurrence of the marker in
  the output. On an output whose first line reports 2 errors and whose second line reports
  5, the parser returns 5.
\<close>

theorem last_marker_line_wins:
  "errors (parse_output ascii_rt two_error_lines) = 5
   \<and> spec_first_count ascii_rt error_marker two_error_lines = 2"
  by (simp add: string_defs parse_defs toy_defs)

section \<open>The log scraper\<close>

text \<open>
  The loop appends the trimmed matching lines in order. A line that contains \<^verbatim>\<open>Error\<close>
  contains \<^verbatim>\<open>error\<close> in lower case, so the second test of the source adds nothing to the
  third.
\<close>

lemma collect_error_lines_eq:
  "collect_error_lines rt acc ls = acc @ map strip (filter (error_line rt) ls)"
  by (induction ls arbitrary: acc) auto

lemma contains_iff: "contains s p \<longleftrightarrow> (\<exists>a b. s = a @ p @ b)"
proof (induction s)
  case Nil
  then show ?case by auto
next
  case (Cons c cs)
  show ?case
  proof
    assume "contains (c # cs) p"
    then consider "prefix p (c # cs)" | "contains cs p" by auto
    then show "\<exists>a b. c # cs = a @ p @ b"
    proof cases
      case 1
      then obtain b where "c # cs = p @ b" by (auto simp: prefix_def)
      then have "c # cs = [] @ p @ b" by simp
      then show ?thesis by blast
    next
      case 2
      with Cons obtain a b where "cs = a @ p @ b" by auto
      then have "c # cs = (c # a) @ p @ b" by simp
      then show ?thesis by blast
    qed
  next
    assume "\<exists>a b. c # cs = a @ p @ b"
    then obtain a b where ab: "c # cs = a @ p @ b" by auto
    show "contains (c # cs) p"
    proof (cases a)
      case Nil
      with ab have "prefix p (c # cs)" by (simp add: prefix_def)
      then show ?thesis by simp
    next
      case (Cons x a')
      with ab have "cs = a' @ p @ b" by simp
      with Cons.IH show ?thesis by auto
    qed
  qed
qed

lemma lower_go_append: "\<exists>x. lower_go rt pre (a @ b) = x @ lower_go rt (pre @ a) b"
proof (induction a arbitrary: pre)
  case Nil
  then show ?case by simp
next
  case (Cons c a)
  from Cons[of "pre @ [c]"] obtain x where "lower_go rt (pre @ [c]) (a @ b) = x @ lower_go rt (pre @ c # a) b"
    by auto
  then show ?case by simp
qed

lemma lower_go_Error:
  "lower_go rt pre (u ''Error'' @ b) = u ''error'' @ lower_go rt (pre @ u ''Error'') b"
  by (simp add: u_def lower_cp_def)

lemma contains_Error_lower:
  assumes "contains line (u ''Error'')"
  shows "contains (lower rt line) (u ''error'')"
proof -
  from assms obtain a b where "line = a @ u ''Error'' @ b" by (auto simp: contains_iff)
  moreover obtain x where "lower_go rt [] (a @ u ''Error'' @ b) = x @ lower_go rt ([] @ a) (u ''Error'' @ b)"
    using lower_go_append by blast
  ultimately have "lower rt line = x @ u ''error'' @ lower_go rt (a @ u ''Error'') b"
    by (simp add: lower_def lower_go_Error)
  then show ?thesis unfolding contains_iff by blast
qed

lemma error_line_eq: "error_line rt line = spec_error_line rt line"
  using contains_Error_lower by (auto simp: error_line_def spec_error_line_def)

lemma scrape_eq: "scrape rt c = take 10 (map strip (filter (spec_error_line rt) (split c [10])))"
proof -
  have "error_line rt = spec_error_line rt" using error_line_eq by auto
  then show ?thesis by (simp add: scrape_def collect_error_lines_eq)
qed

lemma read_log_cases:
  "(\<not> os_exists os w (log_file f) \<longrightarrow> read_log os rt root f ok w = None)
   \<and> (isl (os_read_text os w (log_file f)) \<longrightarrow> read_log os rt root f ok w = None)
   \<and> (os_exists os w (log_file f) \<and> \<not> ok \<and> os_read_text os w (log_file f) = Inr c
        \<and> relative_to rt (log_file f) root = Inr rel \<and> os_stat_size os w (log_file f) = Inr n
      \<longrightarrow> read_log os rt root f ok w =
            Some \<lparr> log_path = path_str rel, log_size = n, log_error_lines = scrape rt c \<rparr>)"
  by (auto simp: read_log_def isl_def split: sum.splits)

text \<open>
  Claim C8, as the code has it. For every log content the scraper returns, in the order
  of the log and each without the white space around it, the first 10 of the lines that
  begin with \<^verbatim>\<open>!\<close> or contain \<^verbatim>\<open>error\<close> in any case. A log that is missing or that cannot be
  read gives no log information, and no failure; a log that is read after a failed
  compilation gives its path, its size and these lines.
\<close>

theorem scrape_returns_trimmed_matches:
  "scrape rt c =
     take 10 (map strip (filter (\<lambda>l. startswith l (u ''!'') \<or> contains (lower rt l) (u ''error''))
                           (split c [10])))
   \<and> (\<not> os_exists os w (log_file f) \<longrightarrow> read_log os rt root f ok w = None)
   \<and> (isl (os_read_text os w (log_file f)) \<longrightarrow> read_log os rt root f ok w = None)
   \<and> (os_exists os w (log_file f) \<and> \<not> ok \<and> os_read_text os w (log_file f) = Inr c
        \<and> relative_to rt (log_file f) root = Inr rel \<and> os_stat_size os w (log_file f) = Inr n
      \<longrightarrow> read_log os rt root f ok w =
            Some \<lparr> log_path = path_str rel, log_size = n, log_error_lines = scrape rt c \<rparr>)"
proof -
  have "spec_error_line rt = (\<lambda>l. startswith l (u ''!'') \<or> contains (lower rt l) (u ''error''))"
    by (auto simp: spec_error_line_def)
  with scrape_eq[of rt c] read_log_cases[of os w f rt root ok c rel n] show ?thesis by simp
qed

text \<open>
  Claim C8 on a log of twelve matching lines, of which the first ten come back, on a
  project without a log and on a failed build with one.
\<close>

theorem scrape_returns_trimmed_matches_witness:
  "scrape ascii_rt twelve_errors =
     [u ''error a'', u ''error b'', u ''error c'', u ''error d'', u ''error e'',
      u ''error f'', u ''error g'', u ''error h'', u ''error i'', u ''error j'']
   \<and> read_log (toy_os (exits 1)) ascii_rt srv (Path [47] [u ''srv'', u ''a.tex'']) False
        (world on_host) = None
   \<and> read_log (toy_os (exits 1)) ascii_rt srv (Path [47] [u ''srv'', u ''a.tex'']) False failed_build =
       Some \<lparr> log_path = u ''output/a.log'', log_size = length twelve_errors,
              log_error_lines = scrape ascii_rt twelve_errors \<rparr>"
proof -
  let ?os = "toy_os (exits 1)"
  let ?f = "Path [47] [u ''srv'', u ''a.tex'']"
  have lf: "log_file ?f = Path [47] [u ''srv'', u ''output'', u ''a.log'']"
    by (simp add: log_file_def string_defs path_defs)
  have missing: "\<not> os_exists ?os (world on_host) (log_file ?f)"
    unfolding lf by (simp add: toy_os_def on_host_def u_def)
  have there: "os_exists ?os failed_build (log_file ?f)"
    unfolding lf by (simp add: toy_os_def failed_build_def u_def)
  have content: "os_read_text ?os failed_build (log_file ?f) = Inr twelve_errors"
    unfolding lf by (simp add: toy_os_def failed_build_def u_def)
  have size: "os_stat_size ?os failed_build (log_file ?f) = Inr (length twelve_errors)"
    unfolding lf by (simp add: toy_os_def failed_build_def u_def)
  have rel: "relative_to ascii_rt (log_file ?f) srv = Inr (Path [] [u ''output'', u ''a.log''])"
    unfolding lf by (simp add: relative_to_def srv_def u_def)
  have str: "path_str (Path [] [u ''output'', u ''a.log'']) = u ''output/a.log''"
    by (simp add: path_str_def u_def)
  have a: "scrape ascii_rt twelve_errors =
     [u ''error a'', u ''error b'', u ''error c'', u ''error d'', u ''error e'',
      u ''error f'', u ''error g'', u ''error h'', u ''error i'', u ''error j'']"
    using scrape_returns_trimmed_matches[of ascii_rt twelve_errors]
    by (simp add: string_defs parse_defs toy_defs)
  have b: "read_log ?os ascii_rt srv ?f False (world on_host) = None"
    using scrape_returns_trimmed_matches[of ascii_rt twelve_errors ?os "world on_host" ?f srv False] missing
    by blast
  have c: "read_log ?os ascii_rt srv ?f False failed_build =
       Some \<lparr> log_path = path_str (Path [] [u ''output'', u ''a.log'']),
              log_size = length twelve_errors,
              log_error_lines = scrape ascii_rt twelve_errors \<rparr>"
    using scrape_returns_trimmed_matches[of ascii_rt twelve_errors ?os failed_build ?f srv False
        "Path [] [u ''output'', u ''a.log'']" "length twelve_errors"] there content size rel
    by blast
  from a b c str show ?thesis by simp
qed

text \<open>
  Claim C8 as it is stated returns the matching lines themselves. The line that is a
  space and the word \<^verbatim>\<open>error\<close> comes back without the space.
\<close>

theorem scrape_trims_lines:
  "scrape ascii_rt (u '' error'') = [u ''error'']
   \<and> spec_scrape ascii_rt (u '' error'') = [u '' error'']"
  by (simp add: string_defs parse_defs toy_defs)

section \<open>Deleting a project and checking quality\<close>

text \<open>
  Claim C9. A deletion request for an existing directory that does not contain
  \<^verbatim>\<open>main.tex\<close> is answered with status 400 and the message that the directory is not a
  project, and the state after it is the state before it: nothing is removed and no
  process is run.
\<close>

theorem delete_rejects_non_project:
  assumes "os_exists os (world s) (path_join root p)"
    and "os_is_dir os (world s) (path_join root p)"
    and "\<not> os_exists os (world s) (path_join (path_join root p) (u ''main.tex''))"
  shows "delete_project os root p s =
           ((\<lparr> api_success = False, api_message = u ''Invalid project directory'', api_data = None,
                api_errors = Some [u ''Directory does not contain main.tex: '' @ p] \<rparr>, 400), s)"
  using assms by (simp add: delete_project_def delete_project_body_def)

text \<open>
  Claim C9 on the directory \<^verbatim>\<open>notes\<close>, which holds no document.
\<close>

theorem delete_rejects_non_project_witness:
  "os_is_dir (toy_os (exits 0)) (world on_host) (path_join srv (u ''notes''))
   \<and> delete_project (toy_os (exits 0)) srv (u ''notes'') on_host =
       ((\<lparr> api_success = False, api_message = u ''Invalid project directory'', api_data = None,
            api_errors = Some [u ''Directory does not contain main.tex: notes''] \<rparr>, 400), on_host)"
proof -
  let ?os = "toy_os (exits 0)"
  have p: "path_join srv (u ''notes'') = Path [47] [u ''srv'', u ''notes'']"
    by (simp add: srv_def string_defs path_defs)
  have m: "path_join (Path [47] [u ''srv'', u ''notes'']) (u ''main.tex'') =
             Path [47] [u ''srv'', u ''notes'', u ''main.tex'']"
    by (simp add: string_defs path_defs)
  have e: "os_exists ?os (world on_host) (path_join srv (u ''notes''))"
    unfolding p by (simp add: toy_os_def on_host_def u_def)
  have d: "os_is_dir ?os (world on_host) (path_join srv (u ''notes''))"
    unfolding p by (simp add: toy_os_def on_host_def u_def)
  have n: "\<not> os_exists ?os (world on_host) (path_join (path_join srv (u ''notes'')) (u ''main.tex''))"
    unfolding p m by (simp add: toy_os_def on_host_def u_def)
  from delete_rejects_non_project[OF e d n] d show ?thesis by (simp add: u_def)
qed

text \<open>
  Claim C10. A quality check of an existing file is answered with status 200 and
  \<^verbatim>\<open>success = True\<close>, whatever the script did: whether the script succeeded is the field
  \<^verbatim>\<open>check_successful\<close> of the data, which is the \<^verbatim>\<open>success\<close> of the process runner.
\<close>

theorem quality_check_envelope:
  assumes "fp \<noteq> []" and "os_exists os (world s) (path_join root fp)"
  shows "\<exists>d s'. quality_check os rt root (Inr (Some fp)) s =
            ((\<lparr> api_success = True, api_message = u ''Quality check completed'',
                 api_data = Some d, api_errors = None \<rparr>, 200), s')
          \<and> q_check_successful d =
              success (fst (run_command os rt root
                 [path_str (path_join (scripts_dir root) (u ''check-quality.sh'')), fp] None s))"
  using assms
  by (simp add: quality_check_def quality_check_body_def bind_exn_def lift_exn_def Let_def
           split: prod.splits)

text \<open>
  Claim C10 with a script that exits with 1 and with a script that times out: the
  runner reports failure, the envelope reports success, the data report the failure.
\<close>

theorem quality_check_envelope_witness:
  "success (fst (run_command (toy_os (exits 1)) ascii_rt srv check_script None on_host)) = False
   \<and> api_success (fst (fst (quality_check (toy_os (exits 1)) ascii_rt srv check_a on_host)))
   \<and> snd (fst (quality_check (toy_os (exits 1)) ascii_rt srv check_a on_host)) = 200
   \<and> map_option q_check_successful
        (api_data (fst (fst (quality_check (toy_os (exits 1)) ascii_rt srv check_a on_host)))) =
       Some False
   \<and> success (fst (run_command (toy_os (raises timed_out)) ascii_rt srv check_script None on_host)) = False
   \<and> api_success (fst (fst (quality_check (toy_os (raises timed_out)) ascii_rt srv check_a on_host)))
   \<and> map_option q_check_successful
        (api_data (fst (fst (quality_check (toy_os (raises timed_out)) ascii_rt srv check_a on_host)))) =
       Some False"
proof -
  have ne: "u ''a.tex'' \<noteq> []" by (simp add: u_def)
  have p: "path_join srv (u ''a.tex'') = Path [47] [u ''srv'', u ''a.tex'']"
    by (simp add: srv_def string_defs path_defs)
  have script: "[path_str (path_join (scripts_dir srv) (u ''check-quality.sh'')), u ''a.tex''] = check_script"
    by (simp add: check_script_def scripts_dir_def srv_def string_defs path_defs)
  have e1: "os_exists (toy_os (exits 1)) (world on_host) (path_join srv (u ''a.tex''))"
    unfolding p by (simp add: toy_os_def on_host_def u_def)
  have e2: "os_exists (toy_os (raises timed_out)) (world on_host) (path_join srv (u ''a.tex''))"
    unfolding p by (simp add: toy_os_def on_host_def u_def)
  have f1: "success (fst (run_command (toy_os (exits 1)) ascii_rt srv check_script None on_host)) = False"
    by (simp add: eval_defs)
  have f2: "success (fst (run_command (toy_os (raises timed_out)) ascii_rt srv check_script None on_host)) = False"
    by (simp add: eval_defs)
  from quality_check_envelope[OF ne e1, of ascii_rt] f1
  have a: "api_success (fst (fst (quality_check (toy_os (exits 1)) ascii_rt srv check_a on_host)))
   \<and> snd (fst (quality_check (toy_os (exits 1)) ascii_rt srv check_a on_host)) = 200
   \<and> map_option q_check_successful
        (api_data (fst (fst (quality_check (toy_os (exits 1)) ascii_rt srv check_a on_host)))) =
       Some False"
    unfolding script check_a_def by auto
  from quality_check_envelope[OF ne e2, of ascii_rt] f2
  have b: "api_success (fst (fst (quality_check (toy_os (raises timed_out)) ascii_rt srv check_a on_host)))
   \<and> map_option q_check_successful
        (api_data (fst (fst (quality_check (toy_os (raises timed_out)) ascii_rt srv check_a on_host)))) =
       Some False"
    unfolding script check_a_def by auto
  from a b f1 f2 show ?thesis by simp
qed

section \<open>The compilation dispatcher\<close>

text \<open>
  What each step adds to the record of invocations.
\<close>

lemma subprocess_run_calls:
  "subprocess_run os cmd cwd t s = (r, s1) \<Longrightarrow>
     calls s1 = calls s @ [\<lparr> call_cmd = cmd, call_cwd = cwd, call_timeout = t, call_outcome = r \<rparr>]"
  by (auto simp: subprocess_run_def split: prod.splits)

lemma mkdir_calls: "mkdir os p s = (r, s1) \<Longrightarrow> calls s1 = calls s"
  by (auto simp: mkdir_def split: prod.splits option.splits)

lemma bibtex_passes_calls:
  assumes "bibtex_passes os cwd cc (Inr bc) aux ub out s = (res, s1)"
  shows "\<exists>new. calls s1 = calls s @ new
           \<and> (\<forall>c\<in>set new. call_timeout c = None \<and> call_cwd c = cwd)
           \<and> (isl res \<longrightarrow> (\<exists>c\<in>set new. raised c))
           \<and> (isl res \<and> (\<forall>c\<in>set new. raised c \<longrightarrow> call_cmd c = cc) \<longrightarrow> (\<exists>c\<in>set new. call_cmd c = cc))"
proof (cases "ub \<and> os_exists os (world s) aux")
  case False
  with assms show ?thesis by (auto simp: bibtex_passes_def)
next
  case True
  obtain rb sb where rb: "subprocess_run os bc cwd None s = (rb, sb)" by force
  note cb = subprocess_run_calls[OF rb]
  show ?thesis
  proof (cases rb)
    case (Inl e)
    with assms True rb have "res = Inl e" "s1 = sb"
      by (auto simp: bibtex_passes_def bind_exn_def lift_exn_def)
    with cb Inl show ?thesis by (auto simp: raised_def)
  next
    case (Inr resb)
    obtain r2 s2 where r2: "subprocess_run os cc cwd None sb = (r2, s2)" by force
    note c2 = subprocess_run_calls[OF r2]
    from assms True rb Inr r2 have s1: "s1 = s2"
      and res: "res = (case r2 of Inl e \<Rightarrow> Inl e | Inr x \<Rightarrow> Inr (collect [] x (collect (u ''BibTeX: '') resb out)))"
      by (auto simp: bibtex_passes_def bind_exn_def lift_exn_def split: sum.splits)
    show ?thesis
      using cb c2 Inr res s1 by (cases r2) (auto simp: raised_def)
  qed
qed

lemma second_pass_calls:
  assumes "second_pass os cwd cc quick out s = (res, s1)"
  shows "\<exists>new. calls s1 = calls s @ new
           \<and> (\<forall>c\<in>set new. call_timeout c = None \<and> call_cwd c = cwd \<and> call_cmd c = cc)
           \<and> (isl res \<longrightarrow> (\<exists>c\<in>set new. raised c))
           \<and> (\<not> quick \<longrightarrow> new \<noteq> [])"
proof (cases quick)
  case True
  with assms show ?thesis by (auto simp: second_pass_def)
next
  case False
  obtain r3 s3 where r3: "subprocess_run os cc cwd None s = (r3, s3)" by force
  note c3 = subprocess_run_calls[OF r3]
  from assms False r3 have "s1 = s3" "isl res = isl r3"
    by (auto simp: second_pass_def bind_exn_def split: sum.splits)
  with c3 show ?thesis by (auto simp: raised_def)
qed

text \<open>
  The whole sequence: the first invocation is the compiler command with 180 seconds; the
  later ones have no timeout; when the first exits with 0 and none of the later ones
  raises, the result is that of the check for the artifact.
\<close>

lemma compile_passes_calls:
  assumes run: "compile_passes os cwd banner cc (Inr bc) aux pdf ub quick s = (res, s')"
  shows "\<exists>r1 later. calls s' = calls s @
              \<lparr> call_cmd = cc, call_cwd = cwd, call_timeout = Some 180, call_outcome = r1 \<rparr> # later
           \<and> (\<forall>c\<in>set later. call_timeout c = None \<and> call_cwd c = cwd)
           \<and> (\<forall>x. r1 = Inr x \<and> proc_returncode x = 0 \<and> (\<forall>c\<in>set later. \<not> raised c)
                 \<longrightarrow> (\<exists>out. res = Inr (pdf_check os pdf out s')))
           \<and> (\<forall>x. r1 = Inr x \<and> proc_returncode x = 0 \<and> \<not> quick
                   \<and> (\<forall>c\<in>set later. raised c \<longrightarrow> call_cmd c = cc)
                 \<longrightarrow> (\<exists>c\<in>set later. call_cmd c = cc))"
proof -
  obtain r1 s1 where r1: "subprocess_run os cc cwd (Some 180) s = (r1, s1)" by force
  note c1 = subprocess_run_calls[OF r1]
  show ?thesis
  proof (cases r1)
    case (Inl e)
    with run r1 have "s' = s1" by (auto simp: compile_passes_def bind_exn_def)
    with c1 Inl show ?thesis by auto
  next
    case (Inr x)
    show ?thesis
    proof (cases "proc_returncode x = 0")
      case False
      with run r1 Inr have "s' = s1" by (auto simp: compile_passes_def bind_exn_def Let_def)
      with c1 Inr False show ?thesis by auto
    next
      case True
      define out1 where "out1 = collect [] x ([banner], [])"
      obtain rb sb where rb: "bibtex_passes os cwd cc (Inr bc) aux ub out1 s1 = (rb, sb)" by force
      from bibtex_passes_calls[OF rb] obtain newb where
        nb: "calls sb = calls s1 @ newb"
          "\<forall>c\<in>set newb. call_timeout c = None \<and> call_cwd c = cwd"
          "isl rb \<longrightarrow> (\<exists>c\<in>set newb. raised c)"
          "isl rb \<and> (\<forall>c\<in>set newb. raised c \<longrightarrow> call_cmd c = cc) \<longrightarrow> (\<exists>c\<in>set newb. call_cmd c = cc)"
        by blast
      show ?thesis
      proof (cases rb)
        case (Inl e)
        with run r1 Inr True rb have "s' = sb" "res = Inl e"
          by (auto simp: compile_passes_def bind_exn_def Let_def out1_def)
        with c1 nb Inl \<open>r1 = Inr x\<close> show ?thesis by auto
      next
        case rbr: (Inr out2)
        obtain r3 s3 where r3: "second_pass os cwd cc quick out2 sb = (r3, s3)" by force
        from second_pass_calls[OF r3] obtain newc where
          nc: "calls s3 = calls sb @ newc"
            "\<forall>c\<in>set newc. call_timeout c = None \<and> call_cwd c = cwd \<and> call_cmd c = cc"
            "isl r3 \<longrightarrow> (\<exists>c\<in>set newc. raised c)"
            "\<not> quick \<longrightarrow> newc \<noteq> []"
          by blast
        from run r1 Inr True rb rbr r3 have s': "s' = s3"
          and res: "res = (case r3 of Inl e \<Rightarrow> Inl e | Inr out3 \<Rightarrow> Inr (pdf_check os pdf out3 s3))"
          by (auto simp: compile_passes_def bind_exn_def Let_def out1_def split: sum.splits)
        have calls: "calls s' = calls s @
              \<lparr> call_cmd = cc, call_cwd = cwd, call_timeout = Some 180, call_outcome = r1 \<rparr> # (newb @ newc)"
          using c1 nb(1) nc(1) s' by simp
        have a: "\<forall>c\<in>set (newb @ newc). call_timeout c = None \<and> call_cwd c = cwd"
          using nb(2) nc(2) by auto
        have b: "(\<forall>c\<in>set (newb @ newc). \<not> raised c) \<longrightarrow> (\<exists>out. res = Inr (pdf_check os pdf out s'))"
          using nc(3) res s' by (cases r3) auto
        have c: "\<not> quick \<longrightarrow> (\<exists>c\<in>set (newb @ newc). call_cmd c = cc)"
          using nc(2,4) by (cases newc) auto
        from calls a b c show ?thesis by blast
      qed
    qed
  qed
qed

lemma compile_passes_ran:
  assumes "compile_passes os cwd banner cc (Inr bc) aux pdf ub quick s = (res, s')"
  shows "ran_passes os cc cwd pdf quick s s' (case res of Inr r \<Rightarrow> r | Inl e \<Rightarrow> h e)"
proof -
  from compile_passes_calls[OF assms] obtain r1 later where
    a: "calls s' = calls s @
              \<lparr> call_cmd = cc, call_cwd = cwd, call_timeout = Some 180, call_outcome = r1 \<rparr> # later"
    and b: "\<forall>c\<in>set later. call_timeout c = None \<and> call_cwd c = cwd"
    and c: "\<forall>x. r1 = Inr x \<and> proc_returncode x = 0 \<and> (\<forall>c\<in>set later. \<not> raised c)
                 \<longrightarrow> (\<exists>out. res = Inr (pdf_check os pdf out s'))"
    and d: "\<forall>x. r1 = Inr x \<and> proc_returncode x = 0 \<and> \<not> quick
                   \<and> (\<forall>c\<in>set later. raised c \<longrightarrow> call_cmd c = cc)
                 \<longrightarrow> (\<exists>c\<in>set later. call_cmd c = cc)"
    by blast
  from c have c': "\<forall>x. r1 = Inr x \<and> proc_returncode x = 0 \<and> (\<forall>c\<in>set later. \<not> raised c)
                 \<longrightarrow> (\<exists>out. (case res of Inr r \<Rightarrow> r | Inl e \<Rightarrow> h e) = pdf_check os pdf out s')"
    by force
  show ?thesis unfolding ran_passes_def using a b c' d by blast
qed

lemma path_join_output: "path_join p (u ''output'') = Path (anchor p) (names p @ [u ''output''])"
  by (simp add: path_join_def path_of_def splitroot_def startswith_def split_def u_def)

lemma relative_to_output:
  "relative_to rt p q = Inr r \<Longrightarrow> \<exists>r'. relative_to rt (path_join p (u ''output'')) q = Inr r'"
  by (auto simp: relative_to_def path_join_output split: if_splits)

lemma run_direct_calls:
  assumes run: "run_direct_latex_compilation os rt tex compiler ub quick s = (r, s')"
  shows "calls s' = calls s \<or>
         (\<exists>ro rx. relative_to rt (output_dir_of tex) app = Inr ro \<and> relative_to rt tex app = Inr rx
            \<and> ran_passes os (direct_compile_cmd compiler ro rx) None (artifact tex) quick s s' r)"
proof -
  define h where "h = (\<lambda>e. \<lparr> success = False, returncode = 1, stdout = [],
             stderr = u ''Direct compilation error: '' @ exn_str e \<rparr>)"
  obtain m s0 where m: "mkdir os (output_dir_of tex) s = (m, s0)" by force
  note c0 = mkdir_calls[OF m]
  show ?thesis
  proof (cases m)
    case (Inl e)
    with run m have "s' = s0"
      by (auto simp: run_direct_latex_compilation_def run_direct_body_def bind_exn_def
            output_dir_of_def Let_def)
    with c0 show ?thesis by simp
  next
    case mr: (Inr x)
    show ?thesis
    proof (cases "relative_to rt (output_dir_of tex) app")
      case (Inl e)
      with run m mr have "s' = s0"
        by (auto simp: run_direct_latex_compilation_def run_direct_body_def bind_exn_def
              lift_exn_def output_dir_of_def Let_def)
      with c0 show ?thesis by simp
    next
      case ro: (Inr ro)
      show ?thesis
      proof (cases "relative_to rt tex app")
        case (Inl e)
        with run m mr ro have "s' = s0"
          by (auto simp: run_direct_latex_compilation_def run_direct_body_def bind_exn_def
                lift_exn_def output_dir_of_def Let_def)
        with c0 show ?thesis by simp
      next
        case rx: (Inr rx)
        obtain res s1 where cp: "compile_passes os None ([128260] @ u '' Compilation via latex-engine container'')
            (direct_compile_cmd compiler ro rx) (Inr (direct_bibtex_cmd ro (stem tex)))
            (path_join (output_dir_of tex) (stem tex @ u ''.aux'')) (artifact tex) ub quick s0 = (res, s1)"
          by force
        from run m mr ro rx cp have "s' = s1" "r = (case res of Inr r \<Rightarrow> r | Inl e \<Rightarrow> h e)"
          by (auto simp: run_direct_latex_compilation_def run_direct_body_def bind_exn_def
                lift_exn_def output_dir_of_def artifact_def Let_def h_def split: sum.splits)
        with compile_passes_ran[OF cp, of h] c0 ro rx show ?thesis
          by (simp add: ran_passes_def)
      qed
    qed
  qed
qed

lemma run_compose_calls:
  assumes run: "run_compose_body os rt root tex compiler ub quick s = (res, s')"
  shows "calls s' = calls s \<or>
         (\<exists>rw. relative_to rt (parent tex) root = Inr rw
            \<and> ran_passes os (compose_compile_cmd compiler rw (name tex)) (Some (path_str root))
                 (artifact tex) quick s s' (case res of Inr r \<Rightarrow> r | Inl e \<Rightarrow> h e))"
proof -
  obtain m s0 where m: "mkdir os (output_dir_of tex) s = (m, s0)" by force
  note c0 = mkdir_calls[OF m]
  show ?thesis
  proof (cases m)
    case (Inl e)
    with run m have "s' = s0"
      by (auto simp: run_compose_body_def bind_exn_def output_dir_of_def Let_def)
    with c0 show ?thesis by simp
  next
    case mr: (Inr x)
    show ?thesis
    proof (cases "relative_to rt (parent tex) root")
      case (Inl e)
      with run m mr have "s' = s0"
        by (auto simp: run_compose_body_def bind_exn_def lift_exn_def output_dir_of_def Let_def)
      with c0 show ?thesis by simp
    next
      case rw: (Inr rw)
      from relative_to_output[OF rw] obtain ro where
        ro: "relative_to rt (output_dir_of tex) root = Inr ro" by (auto simp: output_dir_of_def)
      obtain res1 s1 where cp: "compile_passes os (Some (path_str root)) ([128260] @ u '' Compilation via Docker'')
            (compose_compile_cmd compiler rw (name tex)) (Inr (compose_bibtex_cmd ro (stem tex)))
            (path_join (output_dir_of tex) (stem tex @ u ''.aux'')) (artifact tex) ub quick s0 = (res1, s1)"
        by force
      from run m mr rw ro cp have "s' = s1" "res = res1"
        by (auto simp: run_compose_body_def bind_exn_def
              lift_exn_def output_dir_of_def artifact_def Let_def)
      with compile_passes_ran[OF cp, of h] c0 rw show ?thesis
        by (simp add: ran_passes_def)
    qed
  qed
qed

lemma run_docker_calls:
  assumes run: "run_docker_compilation os rt root cmd s = (r, s')"
    and fp: "arg_file_path (parse_args (drop 1 cmd) initial_args) = Some fp"
  shows "calls s' = calls s \<or>
     (if is_in_docker os root (world s)
      then (\<exists>ro rx. relative_to rt (output_dir_of (tex_file_of os root (world s) fp)) app = Inr ro
              \<and> relative_to rt (tex_file_of os root (world s) fp) app = Inr rx
              \<and> ran_passes os
                   (direct_compile_cmd (arg_compiler (parse_args (drop 1 cmd) initial_args)) ro rx) None
                   (artifact (tex_file_of os root (world s) fp))
                   (arg_quick (parse_args (drop 1 cmd) initial_args)) s s' r)
      else (\<exists>rw. relative_to rt (parent (tex_file_of os root (world s) fp)) root = Inr rw
              \<and> ran_passes os
                   (compose_compile_cmd (arg_compiler (parse_args (drop 1 cmd) initial_args)) rw
                      (name (tex_file_of os root (world s) fp)))
                   (Some (path_str root))
                   (artifact (tex_file_of os root (world s) fp))
                   (arg_quick (parse_args (drop 1 cmd) initial_args)) s s' r))"
proof -
  define a where "a = parse_args (drop 1 cmd) initial_args"
  define tex where "tex = tex_file_of os root (world s) fp"
  define h where "h = (\<lambda>e. \<lparr> success = False, returncode = 1, stdout = [],
             stderr = u ''Docker compilation error: '' @ exn_str e \<rparr>)"
  show ?thesis
  proof (cases "fp = []")
    case True
    with run fp have "s' = s"
      by (auto simp: run_docker_compilation_def run_docker_body_def)
    then show ?thesis by simp
  next
    case nonempty: False
    show ?thesis
    proof (cases "is_in_docker os root (world s)")
      case True
      show ?thesis
      proof (cases "os_exists os (world s) tex")
        case False
        with run fp nonempty True have "s' = s"
          by (auto simp: run_docker_compilation_def run_docker_body_def tex_def tex_file_of_def
                Let_def split: if_splits)
        then show ?thesis by simp
      next
        case ex: True
        with run fp nonempty True have
          "run_direct_latex_compilation os rt tex (arg_compiler a) (arg_use_bibtex a) (arg_quick a) s = (r, s')"
          by (auto simp: run_docker_compilation_def run_docker_body_def tex_def tex_file_of_def
                a_def Let_def split: if_splits prod.splits)
        from run_direct_calls[OF this] True show ?thesis
          by (simp add: tex_def a_def)
      qed
    next
      case False
      show ?thesis
      proof (cases "os_exists os (world s) tex")
        case nex: False
        with run fp nonempty False have "s' = s"
          by (auto simp: run_docker_compilation_def run_docker_body_def tex_def tex_file_of_def Let_def)
        then show ?thesis by simp
      next
        case ex: True
        obtain res s1 where body:
          "run_compose_body os rt root tex (arg_compiler a) (arg_use_bibtex a) (arg_quick a) s = (res, s1)"
          by force
        with run fp nonempty False ex have "s' = s1" "r = (case res of Inr r \<Rightarrow> r | Inl e \<Rightarrow> h e)"
          by (auto simp: run_docker_compilation_def run_docker_body_def tex_def tex_file_of_def
                a_def h_def Let_def split: sum.splits)
        with run_compose_calls[OF body, of h] False show ?thesis
          by (simp add: tex_def a_def)
      qed
    qed
  qed
qed

lemma ran_passes_first:
  assumes "ran_passes os cc cwd pdf quick s s' r" and "calls s' = calls s @ first # later"
  shows "call_cmd first = cc \<and> call_cwd first = cwd \<and> call_timeout first = Some 180
         \<and> (\<forall>c\<in>set later. call_timeout c = None \<and> call_cwd c = cwd)
         \<and> (exit_code first = Some 0 \<and> (\<forall>c\<in>set later. \<not> raised c)
              \<longrightarrow> success r = os_exists os (world s') pdf \<and> returncode r = (if success r then 0 else 1))
         \<and> (exit_code first = Some 0 \<and> \<not> quick \<and> (\<forall>c\<in>set later. raised c \<longrightarrow> call_cmd c = cc)
              \<longrightarrow> (\<exists>c\<in>set later. call_cmd c = cc \<and> call_cwd c = cwd))"
proof -
  from assms(1) obtain r1 later' where
    a: "calls s' = calls s @
              \<lparr> call_cmd = cc, call_cwd = cwd, call_timeout = Some 180, call_outcome = r1 \<rparr> # later'"
    and b: "\<forall>c\<in>set later'. call_timeout c = None \<and> call_cwd c = cwd"
    and c: "\<forall>x. r1 = Inr x \<and> proc_returncode x = 0 \<and> (\<forall>c\<in>set later'. \<not> raised c)
                 \<longrightarrow> (\<exists>out. r = pdf_check os pdf out s')"
    and d: "\<forall>x. r1 = Inr x \<and> proc_returncode x = 0 \<and> \<not> quick
                   \<and> (\<forall>c\<in>set later'. raised c \<longrightarrow> call_cmd c = cc)
                 \<longrightarrow> (\<exists>c\<in>set later'. call_cmd c = cc)"
    unfolding ran_passes_def by blast
  from a assms(2) have f: "first = \<lparr> call_cmd = cc, call_cwd = cwd, call_timeout = Some 180, call_outcome = r1 \<rparr>"
    and l: "later' = later" by auto
  have e: "exit_code first = Some 0 \<longleftrightarrow> (\<exists>x. r1 = Inr x \<and> proc_returncode x = 0)"
    using f by (cases r1) (auto simp: exit_code_def)
  have c': "exit_code first = Some 0 \<and> (\<forall>c\<in>set later. \<not> raised c)
              \<longrightarrow> success r = os_exists os (world s') pdf \<and> returncode r = (if success r then 0 else 1)"
    using c e l by (auto simp: pdf_check_def Let_def)
  have d': "exit_code first = Some 0 \<and> \<not> quick \<and> (\<forall>c\<in>set later. raised c \<longrightarrow> call_cmd c = cc)
              \<longrightarrow> (\<exists>c\<in>set later. call_cmd c = cc \<and> call_cwd c = cwd)"
    using d e l b by blast
  from f b l c' d' show ?thesis by simp
qed

text \<open>
  The runs on the small operating system, evaluated once.
\<close>

lemma compile_a_args:
  "parse_args (drop 1 compile_a) initial_args =
     \<lparr> arg_file_path = Some (u ''a.tex''), arg_compiler = u ''lualatex'',
       arg_use_bibtex = False, arg_quick = False \<rparr>"
  by (simp add: compile_a_def initial_args_def u_def startswith_def)



lemma host_run_calls:
  "calls (snd host_run) =
     [\<lparr> call_cmd = compose_compile_cmd (u ''lualatex'') (Path [] []) (u ''a.tex''),
        call_cwd = Some (u ''/srv''), call_timeout = Some 180,
        call_outcome = Inr \<lparr> proc_returncode = 0, proc_stdout = [], proc_stderr = [] \<rparr> \<rparr>,
      \<lparr> call_cmd = compose_compile_cmd (u ''lualatex'') (Path [] []) (u ''a.tex''),
        call_cwd = Some (u ''/srv''), call_timeout = None,
        call_outcome = Inr \<lparr> proc_returncode = 1, proc_stdout = [], proc_stderr = u ''again'' \<rparr> \<rparr>]"
  by (simp add: eval_defs)


lemma failing_run_calls:
  "calls (snd failing_run) =
     [\<lparr> call_cmd = compose_compile_cmd (u ''lualatex'') (Path [] []) (u ''a.tex''),
        call_cwd = Some (u ''/srv''), call_timeout = Some 180,
        call_outcome = Inr \<lparr> proc_returncode = 1, proc_stdout = [], proc_stderr = [] \<rparr> \<rparr>]"
  by (simp add: eval_defs)

lemma container_run_calls:
  "calls (snd container_run) =
     [\<lparr> call_cmd = direct_compile_cmd (u ''lualatex'') (Path [] [u ''output'']) (Path [] [u ''a.tex'']),
        call_cwd = None, call_timeout = Some 180,
        call_outcome = Inr \<lparr> proc_returncode = 0, proc_stdout = [], proc_stderr = [] \<rparr> \<rparr>,
      \<lparr> call_cmd = direct_compile_cmd (u ''lualatex'') (Path [] [u ''output'']) (Path [] [u ''a.tex'']),
        call_cwd = None, call_timeout = None,
        call_outcome = Inr \<lparr> proc_returncode = 0, proc_stdout = [], proc_stderr = [] \<rparr> \<rparr>]"
  by (simp add: eval_defs)

lemma container_inside: "is_in_docker (toy_os proc) app (world in_container)"
  by (simp add: is_in_docker_def toy_os_def in_container_def string_defs path_defs)

lemma no_calls_before: "calls on_host = []" "calls in_container = []"
  by (simp_all add: on_host_def in_container_def)



text \<open>
  Claim C2 on the same run. The first compiler pass has a timeout of 180 seconds, the
  second pass is the same command with no timeout.
\<close>

theorem later_passes_have_no_timeout:
  "map call_timeout (calls (snd host_run)) = [Some 180, None]
   \<and> map call_cmd (calls (snd host_run)) =
       [compose_compile_cmd (u ''lualatex'') (Path [] []) (u ''a.tex''),
        compose_compile_cmd (u ''lualatex'') (Path [] []) (u ''a.tex'')]"
  by (simp add: host_run_calls)

text \<open>
  Claim C3, as the code has it. Take a compile request with quick mode off whose first
  compiler pass exits with 0 and in which every invocation that raises is one of the
  compiler command (so the bibliography tool, when it runs, returns). Then the compiler
  command is invoked again after the first pass, in the same working directory.
\<close>

theorem second_pass_after_clean_first:
  assumes run: "run_docker_compilation os rt root cmd s = (r, s')"
    and quick: "\<not> arg_quick (parse_args (drop 1 cmd) initial_args)"
    and tr: "calls s' = calls s @ first # later"
    and first: "exit_code first = Some 0"
    and later: "\<forall>c\<in>set later. raised c \<longrightarrow> call_cmd c = call_cmd first"
  shows "\<exists>c\<in>set later. call_cmd c = call_cmd first \<and> call_cwd c = call_cwd first"
proof -
  from tr have ne: "calls s' \<noteq> calls s" by simp
  have "\<exists>fp. arg_file_path (parse_args (drop 1 cmd) initial_args) = Some fp"
  proof (rule ccontr)
    assume "\<not> ?thesis"
    then have "arg_file_path (parse_args (drop 1 cmd) initial_args) = None" by simp
    with run have "s' = s" by (auto simp: run_docker_compilation_def run_docker_body_def)
    with ne show False by simp
  qed
  then obtain fp where fp: "arg_file_path (parse_args (drop 1 cmd) initial_args) = Some fp" ..
  from run_docker_calls[OF run fp] ne obtain cc cwd pdf where
    "ran_passes os cc cwd pdf (arg_quick (parse_args (drop 1 cmd) initial_args)) s s' r"
    by (auto split: if_splits)
  from ran_passes_first[OF this tr] first later quick show ?thesis by auto
qed

text \<open>
  Claim C3 on the host run: two invocations of the same command.
\<close>

theorem second_pass_after_clean_first_witness:
  "arg_quick (parse_args (drop 1 compile_a) initial_args) = False
   \<and> exit_code (hd (calls (snd host_run))) = Some 0
   \<and> length (calls (snd host_run)) = 2
   \<and> call_cmd (calls (snd host_run) ! 1) = call_cmd (calls (snd host_run) ! 0)"
proof -
  have run: "run_docker_compilation (toy_os (latex_once a_pdf)) ascii_rt srv compile_a on_host =
               (fst host_run, snd host_run)"
    by (simp add: host_run_def)
  have quick: "\<not> arg_quick (parse_args (drop 1 compile_a) initial_args)"
    using compile_a_args by simp
  have tr: "calls (snd host_run) =
              calls on_host @ hd (calls (snd host_run)) # tl (calls (snd host_run))"
    by (simp add: host_run_calls no_calls_before)
  have first: "exit_code (hd (calls (snd host_run))) = Some 0"
    by (simp add: host_run_calls exit_code_def)
  have later: "\<forall>c\<in>set (tl (calls (snd host_run))).
                 raised c \<longrightarrow> call_cmd c = call_cmd (hd (calls (snd host_run)))"
    by (simp add: host_run_calls)
  from second_pass_after_clean_first[OF run quick tr first later]
  have "\<exists>c\<in>set (tl (calls (snd host_run))). call_cmd c = call_cmd (hd (calls (snd host_run)))"
    by blast
  with quick first show ?thesis by (simp add: host_run_calls)
qed

text \<open>
  Claim C3 as it is stated asks for two compiler passes whenever quick mode is off. With
  a compiler that exits with 1, the existing document is compiled once.
\<close>

theorem one_pass_when_first_fails:
  "arg_quick (parse_args (drop 1 compile_a) initial_args) = False
   \<and> map call_cmd (calls (snd failing_run)) =
       [compose_compile_cmd (u ''lualatex'') (Path [] []) (u ''a.tex'')]
   \<and> map exit_code (calls (snd failing_run)) = [Some 1]"
  using compile_a_args by (simp add: failing_run_calls exit_code_def)

text \<open>
  In the container, once the output directory is made and the two paths are taken
  relative to \<^verbatim>\<open>/app\<close>, the passes run.
\<close>

lemma run_direct_runs:
  assumes made: "fst (os_mkdir os (world s) (output_dir_of tex)) = None"
    and ro: "relative_to rt (output_dir_of tex) app = Inr ro"
    and rx: "relative_to rt tex app = Inr rx"
  shows "ran_passes os (direct_compile_cmd compiler ro rx) None (artifact tex) quick s
           (snd (run_direct_latex_compilation os rt tex compiler ub quick s))
           (fst (run_direct_latex_compilation os rt tex compiler ub quick s))"
proof -
  define h where "h = (\<lambda>e. \<lparr> success = False, returncode = 1, stdout = [],
             stderr = u ''Direct compilation error: '' @ exn_str e \<rparr>)"
  from made obtain w where w: "os_mkdir os (world s) (output_dir_of tex) = (None, w)"
    by (cases "os_mkdir os (world s) (output_dir_of tex)") auto
  define s0 where "s0 = s\<lparr> world := w \<rparr>"
  have m: "mkdir os (output_dir_of tex) s = (Inr (), s0)"
    using w by (simp add: mkdir_def s0_def)
  have c0: "calls s0 = calls s" by (simp add: s0_def)
  obtain res s1 where cp: "compile_passes os None ([128260] @ u '' Compilation via latex-engine container'')
      (direct_compile_cmd compiler ro rx) (Inr (direct_bibtex_cmd ro (stem tex)))
      (path_join (output_dir_of tex) (stem tex @ u ''.aux'')) (artifact tex) ub quick s0 = (res, s1)"
    by force
  from m ro rx cp have "run_direct_latex_compilation os rt tex compiler ub quick s =
      ((case res of Inr r \<Rightarrow> r | Inl e \<Rightarrow> h e), s1)"
    by (auto simp: run_direct_latex_compilation_def run_direct_body_def bind_exn_def
          lift_exn_def output_dir_of_def artifact_def Let_def h_def split: sum.splits)
  with compile_passes_ran[OF cp, of h] c0 show ?thesis
    by (simp add: ran_passes_def)
qed

text \<open>
  Claim C4, as the code has it. Take a compile request that the dispatcher handles
  inside the container (\<^verbatim>\<open>/app\<close> exists and the project root's text starts with \<^verbatim>\<open>/app\<close>),
  whose document exists, whose output directory can be made, and whose document and
  output directory lie under \<^verbatim>\<open>/app\<close>. Then the dispatcher invokes a process, and the first
  one is \<^verbatim>\<open>docker exec api-latex-engine-1\<close> followed by the compiler, its two flags, the
  output directory and the document, both as paths under \<^verbatim>\<open>/workspace\<close>, with 180 seconds:
  the compiler runs in the sibling container.
\<close>

theorem container_path_uses_docker_exec:
  assumes fp: "arg_file_path (parse_args (drop 1 cmd) initial_args) = Some fp"
    and nonempty: "fp \<noteq> []"
    and inside: "is_in_docker os root (world s)"
    and found: "os_exists os (world s) (tex_file_of os root (world s) fp)"
    and made: "fst (os_mkdir os (world s) (output_dir_of (tex_file_of os root (world s) fp))) = None"
    and ro: "relative_to rt (output_dir_of (tex_file_of os root (world s) fp)) app = Inr rel_output"
    and rx: "relative_to rt (tex_file_of os root (world s) fp) app = Inr rel_tex"
  shows "\<exists>outcome later.
           calls (snd (run_docker_compilation os rt root cmd s)) =
             calls s @
             \<lparr> call_cmd =
                 [u ''docker'', u ''exec'', u ''api-latex-engine-1'',
                  arg_compiler (parse_args (drop 1 cmd) initial_args),
                  u ''-interaction=nonstopmode'', u ''-halt-on-error'',
                  u ''-output-directory=/workspace/'' @ path_str rel_output,
                  u ''/workspace/'' @ path_str rel_tex],
               call_cwd = None, call_timeout = Some 180, call_outcome = outcome \<rparr> # later"
proof -
  define a where "a = parse_args (drop 1 cmd) initial_args"
  define tex where "tex = tex_file_of os root (world s) fp"
  from fp nonempty inside found have
    "run_docker_compilation os rt root cmd s =
       run_direct_latex_compilation os rt tex (arg_compiler a) (arg_use_bibtex a) (arg_quick a) s"
    by (auto simp: run_docker_compilation_def run_docker_body_def tex_def tex_file_of_def
          a_def Let_def split: if_splits prod.splits)
  with run_direct_runs[of os s tex rt rel_output rel_tex "arg_compiler a" "arg_quick a" "arg_use_bibtex a"]
    made ro rx
  have "ran_passes os (direct_compile_cmd (arg_compiler a) rel_output rel_tex) None (artifact tex)
          (arg_quick a) s (snd (run_docker_compilation os rt root cmd s))
          (fst (run_docker_compilation os rt root cmd s))"
    by (simp add: tex_def)
  then show ?thesis
    unfolding ran_passes_def direct_compile_cmd_def a_def by blast
qed

text \<open>
  Claim C4 on the run in the container.
\<close>

theorem container_path_uses_docker_exec_witness:
  "is_in_docker (toy_os (exits 0)) app (world in_container)
   \<and> call_cmd (hd (calls (snd container_run))) =
       [u ''docker'', u ''exec'', u ''api-latex-engine-1'', u ''lualatex'',
        u ''-interaction=nonstopmode'', u ''-halt-on-error'',
        u ''-output-directory=/workspace/output'', u ''/workspace/a.tex'']
   \<and> call_timeout (hd (calls (snd container_run))) = Some 180"
proof -
  let ?os = "toy_os (exits 0)"
  have fp: "arg_file_path (parse_args (drop 1 compile_a) initial_args) = Some (u ''a.tex'')"
    using compile_a_args by simp
  have nonempty: "u ''a.tex'' \<noteq> []" by (simp add: u_def)
  have tex: "tex_file_of ?os app (world in_container) (u ''a.tex'') = Path [47] [u ''app'', u ''a.tex'']"
    by (simp add: tex_file_of_def toy_os_def in_container_def string_defs path_defs)
  have out: "output_dir_of (Path [47] [u ''app'', u ''a.tex'']) = Path [47] [u ''app'', u ''output'']"
    by (simp add: output_dir_of_def string_defs path_defs)
  have found: "os_exists ?os (world in_container) (tex_file_of ?os app (world in_container) (u ''a.tex''))"
    unfolding tex by (simp add: toy_os_def in_container_def u_def)
  have made: "fst (os_mkdir ?os (world in_container)
                (output_dir_of (tex_file_of ?os app (world in_container) (u ''a.tex'')))) = None"
    unfolding tex out by (simp add: toy_os_def in_container_def u_def)
  have ro: "relative_to ascii_rt (output_dir_of (tex_file_of ?os app (world in_container) (u ''a.tex''))) app =
              Inr (Path [] [u ''output''])"
    unfolding tex out by (simp add: string_defs path_defs)
  have rx: "relative_to ascii_rt (tex_file_of ?os app (world in_container) (u ''a.tex'')) app =
              Inr (Path [] [u ''a.tex''])"
    unfolding tex by (simp add: string_defs path_defs)
  from container_path_uses_docker_exec[OF fp nonempty container_inside found made ro rx]
  obtain outcome later where
    "calls (snd (run_docker_compilation ?os ascii_rt app compile_a in_container)) =
       calls in_container @
       \<lparr> call_cmd =
           [u ''docker'', u ''exec'', u ''api-latex-engine-1'',
            arg_compiler (parse_args (drop 1 compile_a) initial_args),
            u ''-interaction=nonstopmode'', u ''-halt-on-error'',
            u ''-output-directory=/workspace/'' @ path_str (Path [] [u ''output'']),
            u ''/workspace/'' @ path_str (Path [] [u ''a.tex''])],
         call_cwd = None, call_timeout = Some 180, call_outcome = outcome \<rparr> # later"
    by blast
  then show ?thesis
    using container_inside compile_a_args
    by (simp add: container_run_def no_calls_before path_str_def u_def)
qed

text \<open>
  Claim C4 as it is stated has the compiler binary invoked directly. Inside the
  container, the command that is run starts with \<^verbatim>\<open>docker exec api-latex-engine-1\<close>; its
  first word is not the compiler.
\<close>

theorem container_run_bridges:
  "is_in_docker (toy_os (exits 0)) app (world in_container)
   \<and> arg_compiler (parse_args (drop 1 compile_a) initial_args) = u ''lualatex''
   \<and> take 4 (call_cmd (hd (calls (snd container_run)))) =
       [u ''docker'', u ''exec'', u ''api-latex-engine-1'', u ''lualatex'']
   \<and> hd (call_cmd (hd (calls (snd container_run)))) \<noteq> u ''lualatex''"
  using compile_a_args by (simp add: container_inside container_run_calls direct_compile_cmd_def u_def)

section \<open>The process runner\<close>

text \<open>
  An invocation that raises ends the sequence with its exception, and each of the two
  compilation functions turns the exception into its own result.
\<close>

lemma bibtex_passes_raise:
  assumes "bibtex_passes os cwd cc bcmd aux ub out s = (res, s1)"
  shows "\<exists>new. calls s1 = calls s @ new
           \<and> (\<forall>c\<in>set new. \<forall>e. call_outcome c = Inl e \<longrightarrow> res = Inl e)"
proof (cases "ub \<and> os_exists os (world s) aux")
  case False
  with assms show ?thesis by (auto simp: bibtex_passes_def)
next
  case True
  show ?thesis
  proof (cases bcmd)
    case (Inl e)
    with assms True have "s1 = s" by (auto simp: bibtex_passes_def bind_exn_def lift_exn_def)
    then show ?thesis by simp
  next
    case bc: (Inr bc)
    obtain rb sb where rb: "subprocess_run os bc cwd None s = (rb, sb)" by force
    note cb = subprocess_run_calls[OF rb]
    show ?thesis
    proof (cases rb)
      case (Inl e)
      with assms True bc rb have "res = Inl e" "s1 = sb"
        by (auto simp: bibtex_passes_def bind_exn_def lift_exn_def)
      with cb Inl show ?thesis by auto
    next
      case (Inr resb)
      obtain r2 s2 where r2: "subprocess_run os cc cwd None sb = (r2, s2)" by force
      note c2 = subprocess_run_calls[OF r2]
      from assms True bc rb Inr r2 have s1: "s1 = s2"
        and res: "res = (case r2 of Inl e \<Rightarrow> Inl e
                         | Inr x \<Rightarrow> Inr (collect [] x (collect (u ''BibTeX: '') resb out)))"
        by (auto simp: bibtex_passes_def bind_exn_def lift_exn_def split: sum.splits)
      show ?thesis
        using cb c2 Inr res s1 by (cases r2) auto
    qed
  qed
qed

lemma second_pass_raise:
  assumes "second_pass os cwd cc quick out s = (res, s1)"
  shows "\<exists>new. calls s1 = calls s @ new
           \<and> (\<forall>c\<in>set new. \<forall>e. call_outcome c = Inl e \<longrightarrow> res = Inl e)"
proof (cases quick)
  case True
  with assms show ?thesis by (auto simp: second_pass_def)
next
  case False
  obtain r3 s3 where r3: "subprocess_run os cc cwd None s = (r3, s3)" by force
  note c3 = subprocess_run_calls[OF r3]
  from assms False r3 have "s1 = s3"
    and "res = (case r3 of Inl e \<Rightarrow> Inl e | Inr x \<Rightarrow> Inr (collect [] x out))"
    by (auto simp: second_pass_def bind_exn_def split: sum.splits)
  with c3 show ?thesis by (cases r3) auto
qed

lemma compile_passes_raise:
  assumes run: "compile_passes os cwd banner cc bcmd aux pdf ub quick s = (res, s')"
  shows "\<exists>new. calls s' = calls s @ new
           \<and> (\<forall>c\<in>set new. \<forall>e. call_outcome c = Inl e \<longrightarrow> res = Inl e)"
proof -
  obtain r1 s1 where r1: "subprocess_run os cc cwd (Some 180) s = (r1, s1)" by force
  note c1 = subprocess_run_calls[OF r1]
  show ?thesis
  proof (cases r1)
    case (Inl e)
    with run r1 have "s' = s1" "res = Inl e" by (auto simp: compile_passes_def bind_exn_def)
    with c1 Inl show ?thesis by auto
  next
    case (Inr x)
    show ?thesis
    proof (cases "proc_returncode x = 0")
      case False
      with run r1 Inr have "s' = s1" by (auto simp: compile_passes_def bind_exn_def Let_def)
      with c1 Inr show ?thesis by auto
    next
      case True
      define out1 where "out1 = collect [] x ([banner], [])"
      obtain rb sb where rb: "bibtex_passes os cwd cc bcmd aux ub out1 s1 = (rb, sb)" by force
      from bibtex_passes_raise[OF rb] obtain newb where
        nb: "calls sb = calls s1 @ newb"
          "\<forall>c\<in>set newb. \<forall>e. call_outcome c = Inl e \<longrightarrow> rb = Inl e"
        by blast
      show ?thesis
      proof (cases rb)
        case (Inl e)
        with run r1 Inr True rb have "s' = sb" "res = Inl e"
          by (auto simp: compile_passes_def bind_exn_def Let_def out1_def)
        with c1 nb Inl \<open>r1 = Inr x\<close> show ?thesis by auto
      next
        case rbr: (Inr out2)
        obtain r3 s3 where r3: "second_pass os cwd cc quick out2 sb = (r3, s3)" by force
        from second_pass_raise[OF r3] obtain newc where
          nc: "calls s3 = calls sb @ newc"
            "\<forall>c\<in>set newc. \<forall>e. call_outcome c = Inl e \<longrightarrow> r3 = Inl e"
          by blast
        from run r1 Inr True rb rbr r3 have s': "s' = s3"
          and res: "res = (case r3 of Inl e \<Rightarrow> Inl e | Inr out3 \<Rightarrow> Inr (pdf_check os pdf out3 s3))"
          by (auto simp: compile_passes_def bind_exn_def Let_def out1_def split: sum.splits)
        have calls: "calls s' = calls s @ (\<lparr> call_cmd = cc, call_cwd = cwd, call_timeout = Some 180,
                        call_outcome = r1 \<rparr> # newb @ newc)"
          using c1 nb(1) nc(1) s' by simp
        have "\<forall>c\<in>set (\<lparr> call_cmd = cc, call_cwd = cwd, call_timeout = Some 180,
                        call_outcome = r1 \<rparr> # newb @ newc). \<forall>e. call_outcome c = Inl e \<longrightarrow> res = Inl e"
          using nb(2) nc(2) rbr res \<open>r1 = Inr x\<close> by (cases r3) auto
        with calls show ?thesis by blast
      qed
    qed
  qed
qed

lemma run_direct_raise:
  assumes run: "run_direct_latex_compilation os rt tex compiler ub quick s = (r, s')"
  shows "\<exists>new. calls s' = calls s @ new
           \<and> (\<forall>c\<in>set new. \<forall>e. call_outcome c = Inl e \<longrightarrow> r = direct_error e)"
proof -
  obtain m s0 where m: "mkdir os (output_dir_of tex) s = (m, s0)" by force
  note c0 = mkdir_calls[OF m]
  show ?thesis
  proof (cases m)
    case (Inl e)
    with run m have "s' = s0"
      by (auto simp: run_direct_latex_compilation_def run_direct_body_def bind_exn_def
            output_dir_of_def Let_def)
    with c0 show ?thesis by simp
  next
    case mr: (Inr x)
    show ?thesis
    proof (cases "relative_to rt (output_dir_of tex) app")
      case (Inl e)
      with run m mr have "s' = s0"
        by (auto simp: run_direct_latex_compilation_def run_direct_body_def bind_exn_def
              lift_exn_def output_dir_of_def Let_def)
      with c0 show ?thesis by simp
    next
      case ro: (Inr ro)
      show ?thesis
      proof (cases "relative_to rt tex app")
        case (Inl e)
        with run m mr ro have "s' = s0"
          by (auto simp: run_direct_latex_compilation_def run_direct_body_def bind_exn_def
                lift_exn_def output_dir_of_def Let_def)
        with c0 show ?thesis by simp
      next
        case rx: (Inr rx)
        obtain res s1 where cp: "compile_passes os None ([128260] @ u '' Compilation via latex-engine container'')
            (direct_compile_cmd compiler ro rx) (Inr (direct_bibtex_cmd ro (stem tex)))
            (path_join (output_dir_of tex) (stem tex @ u ''.aux'')) (artifact tex) ub quick s0 = (res, s1)"
          by force
        from run m mr ro rx cp have "s' = s1" "r = (case res of Inr r \<Rightarrow> r | Inl e \<Rightarrow> direct_error e)"
          by (auto simp: run_direct_latex_compilation_def run_direct_body_def bind_exn_def
                lift_exn_def output_dir_of_def artifact_def Let_def direct_error_def split: sum.splits)
        with compile_passes_raise[OF cp] c0 show ?thesis by auto
      qed
    qed
  qed
qed

lemma run_compose_raise:
  assumes run: "run_compose_body os rt root tex compiler ub quick s = (res, s')"
  shows "\<exists>new. calls s' = calls s @ new
           \<and> (\<forall>c\<in>set new. \<forall>e. call_outcome c = Inl e \<longrightarrow> res = Inl e)"
proof -
  obtain m s0 where m: "mkdir os (output_dir_of tex) s = (m, s0)" by force
  note c0 = mkdir_calls[OF m]
  show ?thesis
  proof (cases m)
    case (Inl e)
    with run m have "s' = s0"
      by (auto simp: run_compose_body_def bind_exn_def output_dir_of_def Let_def)
    with c0 show ?thesis by simp
  next
    case mr: (Inr x)
    show ?thesis
    proof (cases "relative_to rt (parent tex) root")
      case (Inl e)
      with run m mr have "s' = s0"
        by (auto simp: run_compose_body_def bind_exn_def lift_exn_def output_dir_of_def Let_def)
      with c0 show ?thesis by simp
    next
      case rw: (Inr rw)
      from run m mr rw have "compile_passes os (Some (path_str root)) ([128260] @ u '' Compilation via Docker'')
            (compose_compile_cmd compiler rw (name tex))
            (map_sum id (\<lambda>rel. compose_bibtex_cmd rel (stem tex)) (relative_to rt (output_dir_of tex) root))
            (path_join (output_dir_of tex) (stem tex @ u ''.aux'')) (artifact tex) ub quick s0 = (res, s')"
        by (auto simp: run_compose_body_def bind_exn_def
              lift_exn_def output_dir_of_def artifact_def Let_def)
      from compile_passes_raise[OF this] c0 show ?thesis by auto
    qed
  qed
qed

lemma run_docker_raise:
  assumes run: "run_docker_compilation os rt root cmd s = (r, s')"
  shows "\<exists>new. calls s' = calls s @ new
           \<and> (\<forall>c\<in>set new. \<forall>e. call_outcome c = Inl e \<longrightarrow>
                 r = (if is_in_docker os root (world s) then direct_error e else docker_error e))"
proof -
  define a where "a = parse_args (drop 1 cmd) initial_args"
  show ?thesis
  proof (cases "arg_file_path a")
    case None
    with run have "s' = s" by (auto simp: run_docker_compilation_def run_docker_body_def a_def)
    then show ?thesis by simp
  next
    case (Some fp)
    define tex where "tex = tex_file_of os root (world s) fp"
    show ?thesis
    proof (cases "fp = [] \<or> \<not> os_exists os (world s) tex")
      case True
      with run Some have "s' = s"
        by (auto simp: run_docker_compilation_def run_docker_body_def a_def tex_def tex_file_of_def
              Let_def split: if_splits)
      then show ?thesis by simp
    next
      case False
      show ?thesis
      proof (cases "is_in_docker os root (world s)")
        case True
        with run Some False have
          "run_direct_latex_compilation os rt tex (arg_compiler a) (arg_use_bibtex a) (arg_quick a) s = (r, s')"
          by (auto simp: run_docker_compilation_def run_docker_body_def tex_def tex_file_of_def
                a_def Let_def split: if_splits prod.splits)
        from run_direct_raise[OF this] True show ?thesis by simp
      next
        case host: False
        obtain res s1 where body:
          "run_compose_body os rt root tex (arg_compiler a) (arg_use_bibtex a) (arg_quick a) s = (res, s1)"
          by force
        with run Some False host have "s' = s1" "r = (case res of Inr r \<Rightarrow> r | Inl e \<Rightarrow> docker_error e)"
          by (auto simp: run_docker_compilation_def run_docker_body_def tex_def tex_file_of_def
                a_def docker_error_def Let_def split: sum.splits)
        with run_compose_raise[OF body] host show ?thesis by auto
      qed
    qed
  qed
qed

lemma host_timeout_calls:
  "calls (snd (run_command (toy_os (raises timed_out)) ascii_rt srv compile_a None on_host)) =
     [\<lparr> call_cmd = compose_compile_cmd (u ''lualatex'') (Path [] []) (u ''a.tex''),
        call_cwd = Some (u ''/srv''), call_timeout = Some 180, call_outcome = Inl timed_out \<rparr>]"
  by (simp add: eval_defs)

lemma container_timeout_calls:
  "calls (snd (run_command (toy_os (raises timed_out)) ascii_rt app compile_a None in_container)) =
     [\<lparr> call_cmd = direct_compile_cmd (u ''lualatex'') (Path [] [u ''output'']) (Path [] [u ''a.tex'']),
        call_cwd = None, call_timeout = Some 180, call_outcome = Inl timed_out \<rparr>]"
  by (simp add: eval_defs)

lemma host_outside: "\<not> is_in_docker (toy_os proc) srv (world on_host)"
  by (simp add: is_in_docker_def toy_os_def on_host_def srv_def string_defs path_defs)

text \<open>
  Claim C5, as the code has it. For a command that is not a compilation, the result is
  that of the process when it returns; a timeout gives \<^verbatim>\<open>success = False\<close>, the return
  code -1 and the error text \<^verbatim>\<open>Command timed out after 5 minutes\<close>; any other exception
  gives \<^verbatim>\<open>success = False\<close>, the return code -1 and the text of the exception. These are
  all the outcomes a process has, so none reaches the caller as an exception. For a
  compilation, a process invocation that raises, by a timeout or otherwise, gives
  \<^verbatim>\<open>success = False\<close>, the return code 1 and the text of the exception after
  \<^verbatim>\<open>Direct compilation error: \<close> inside the container and after
  \<^verbatim>\<open>Docker compilation error: \<close> outside it.
\<close>

theorem run_command_converts_failures:
  "(\<not> to_compiler cmd \<and>
      os_run os (world s) cmd (Some (cwd_or_root root cwd)) (Some 300) = (Inr p, w)
      \<longrightarrow> fst (run_command os rt root cmd cwd s) =
            \<lparr> success = (proc_returncode p = 0), returncode = proc_returncode p,
              stdout = proc_stdout p, stderr = proc_stderr p \<rparr>)
   \<and> (\<not> to_compiler cmd \<and>
      os_run os (world s) cmd (Some (cwd_or_root root cwd)) (Some 300) = (Inl (TimeoutExpired m), w)
      \<longrightarrow> fst (run_command os rt root cmd cwd s) =
            \<lparr> success = False, returncode = - 1, stdout = [],
              stderr = u ''Command timed out after 5 minutes'' \<rparr>)
   \<and> (\<not> to_compiler cmd \<and>
      os_run os (world s) cmd (Some (cwd_or_root root cwd)) (Some 300) = (Inl (Exception m), w)
      \<longrightarrow> fst (run_command os rt root cmd cwd s) =
            \<lparr> success = False, returncode = - 1, stdout = [], stderr = m \<rparr>)
   \<and> (to_compiler cmd \<and> calls (snd (run_command os rt root cmd cwd s)) = calls s @ new
        \<and> c \<in> set new \<and> call_outcome c = Inl e
      \<longrightarrow> fst (run_command os rt root cmd cwd s) =
            \<lparr> success = False, returncode = 1, stdout = [],
              stderr = (if is_in_docker os root (world s) then u ''Direct compilation error: ''
                        else u ''Docker compilation error: '') @ exn_str e \<rparr>)"
proof -
  have generic: "\<not> to_compiler cmd \<Longrightarrow>
      fst (run_command os rt root cmd cwd s) =
        (case fst (os_run os (world s) cmd (Some (cwd_or_root root cwd)) (Some 300)) of
           Inr p \<Rightarrow> \<lparr> success = (proc_returncode p = 0), returncode = proc_returncode p,
                      stdout = proc_stdout p, stderr = proc_stderr p \<rparr>
         | Inl (TimeoutExpired m) \<Rightarrow> \<lparr> success = False, returncode = - 1, stdout = [],
                      stderr = u ''Command timed out after 5 minutes'' \<rparr>
         | Inl (Exception m) \<Rightarrow> \<lparr> success = False, returncode = - 1, stdout = [], stderr = m \<rparr>)"
    by (auto simp: run_command_def run_command_body_def bind_exn_def subprocess_run_def
          split: prod.splits sum.splits exn.splits)
  have compile: "fst (run_command os rt root cmd cwd s) =
            \<lparr> success = False, returncode = 1, stdout = [],
              stderr = (if is_in_docker os root (world s) then u ''Direct compilation error: ''
                        else u ''Docker compilation error: '') @ exn_str e \<rparr>"
    if tc: "to_compiler cmd"
      and tr: "calls (snd (run_command os rt root cmd cwd s)) = calls s @ new"
      and c: "c \<in> set new" "call_outcome c = Inl e"
  proof -
    obtain r s' where run: "run_docker_compilation os rt root cmd s = (r, s')" by force
    with tc have rc: "run_command os rt root cmd cwd s = (r, s')"
      by (simp add: run_command_def run_command_body_def)
    from run_docker_raise[OF run] obtain new' where
      n: "calls s' = calls s @ new'"
      and conv: "\<forall>c\<in>set new'. \<forall>e. call_outcome c = Inl e \<longrightarrow>
                 r = (if is_in_docker os root (world s) then direct_error e else docker_error e)"
      by blast
    from n tr rc have "new' = new" by simp
    with conv c have "r = (if is_in_docker os root (world s) then direct_error e else docker_error e)"
      by blast
    with rc show ?thesis by (simp add: direct_error_def docker_error_def)
  qed
  from generic compile show ?thesis by simp
qed

text \<open>
  Claim C5 on a process that returns, one that times out and one that cannot be
  launched, and on a compilation that times out on the host and in the container.
\<close>

theorem run_command_converts_failures_witness:
  "fst (run_command (toy_os (exits 0)) ascii_rt srv list_files None on_host) =
     \<lparr> success = True, returncode = 0, stdout = [], stderr = [] \<rparr>
   \<and> fst (run_command (toy_os (raises timed_out)) ascii_rt srv list_files None on_host) =
     \<lparr> success = False, returncode = - 1, stdout = [],
       stderr = u ''Command timed out after 5 minutes'' \<rparr>
   \<and> fst (run_command (toy_os (raises no_such_file)) ascii_rt srv list_files None on_host) =
     \<lparr> success = False, returncode = - 1, stdout = [], stderr = u ''No such file or directory'' \<rparr>
   \<and> fst (run_command (toy_os (raises timed_out)) ascii_rt srv compile_a None on_host) =
     \<lparr> success = False, returncode = 1, stdout = [],
       stderr = u ''Docker compilation error: Command timed out'' \<rparr>
   \<and> fst (run_command (toy_os (raises timed_out)) ascii_rt app compile_a None in_container) =
     \<lparr> success = False, returncode = 1, stdout = [],
       stderr = u ''Direct compilation error: Command timed out'' \<rparr>"
proof -
  have generic: "\<not> to_compiler list_files"
    by (simp add: to_compiler_def list_files_def u_def)
  have compile: "to_compiler compile_a"
    by (simp add: to_compiler_def compile_a_def u_def)
  have ok: "os_run (toy_os (exits 0)) (world on_host) list_files
             (Some (cwd_or_root srv None)) (Some 300) =
           (Inr \<lparr> proc_returncode = 0, proc_stdout = [], proc_stderr = [] \<rparr>, world on_host)"
    by (simp add: toy_os_def exits_def)
  have t: "os_run (toy_os (raises timed_out)) (world on_host) list_files
             (Some (cwd_or_root srv None)) (Some 300) =
           (Inl (TimeoutExpired (u ''Command timed out'')), world on_host)"
    by (simp add: toy_os_def raises_def timed_out_def)
  have f: "os_run (toy_os (raises no_such_file)) (world on_host) list_files
             (Some (cwd_or_root srv None)) (Some 300) =
           (Inl (Exception (u ''No such file or directory'')), world on_host)"
    by (simp add: toy_os_def raises_def no_such_file_def)
  let ?hc = "\<lparr> call_cmd = compose_compile_cmd (u ''lualatex'') (Path [] []) (u ''a.tex''),
        call_cwd = Some (u ''/srv''), call_timeout = Some 180, call_outcome = Inl timed_out \<rparr>"
  let ?cc = "\<lparr> call_cmd = direct_compile_cmd (u ''lualatex'') (Path [] [u ''output'']) (Path [] [u ''a.tex'']),
        call_cwd = None, call_timeout = Some 180, call_outcome = Inl timed_out \<rparr>"
  have htr: "calls (snd (run_command (toy_os (raises timed_out)) ascii_rt srv compile_a None on_host)) =
               calls on_host @ [?hc]"
    by (simp add: host_timeout_calls no_calls_before)
  have ctr: "calls (snd (run_command (toy_os (raises timed_out)) ascii_rt app compile_a None in_container)) =
               calls in_container @ [?cc]"
    by (simp add: container_timeout_calls no_calls_before)
  have a0: "fst (run_command (toy_os (exits 0)) ascii_rt srv list_files None on_host) =
     \<lparr> success = True, returncode = 0, stdout = [], stderr = [] \<rparr>"
    using run_command_converts_failures[where cmd = list_files and os = "toy_os (exits 0)"
        and s = on_host and root = srv and cwd = None
        and p = "\<lparr> proc_returncode = 0, proc_stdout = [], proc_stderr = [] \<rparr>"
        and w = "world on_host" and rt = ascii_rt] generic ok
    by simp
  have a: "fst (run_command (toy_os (raises timed_out)) ascii_rt srv list_files None on_host) =
     \<lparr> success = False, returncode = - 1, stdout = [],
       stderr = u ''Command timed out after 5 minutes'' \<rparr>"
    using run_command_converts_failures[where cmd = list_files and os = "toy_os (raises timed_out)"
        and s = on_host and root = srv and cwd = None and m = "u ''Command timed out''"
        and w = "world on_host" and rt = ascii_rt] generic t
    by blast
  have b: "fst (run_command (toy_os (raises no_such_file)) ascii_rt srv list_files None on_host) =
     \<lparr> success = False, returncode = - 1, stdout = [], stderr = u ''No such file or directory'' \<rparr>"
    using run_command_converts_failures[where cmd = list_files and os = "toy_os (raises no_such_file)"
        and s = on_host and root = srv and cwd = None and m = "u ''No such file or directory''"
        and w = "world on_host" and rt = ascii_rt] generic f
    by blast
  have c: "fst (run_command (toy_os (raises timed_out)) ascii_rt srv compile_a None on_host) =
     \<lparr> success = False, returncode = 1, stdout = [],
       stderr = u ''Docker compilation error: '' @ exn_str timed_out \<rparr>"
    using run_command_converts_failures[where cmd = compile_a and os = "toy_os (raises timed_out)"
        and s = on_host and root = srv and cwd = None and e = timed_out and rt = ascii_rt
        and new = "[?hc]" and c = ?hc] compile htr host_outside
    by simp
  have d: "fst (run_command (toy_os (raises timed_out)) ascii_rt app compile_a None in_container) =
     \<lparr> success = False, returncode = 1, stdout = [],
       stderr = u ''Direct compilation error: '' @ exn_str timed_out \<rparr>"
    using run_command_converts_failures[where cmd = compile_a and os = "toy_os (raises timed_out)"
        and s = in_container and root = app and cwd = None and e = timed_out and rt = ascii_rt
        and new = "[?cc]" and c = ?cc] compile ctr container_inside
    by simp
  from a0 a b c d show ?thesis by (simp add: timed_out_def u_def)
qed

text \<open>
  Claim C5 as it is stated gives the error text \<^verbatim>\<open>timed out\<close> and the return code -1 to
  every timeout. The text is another one, and a compilation that times out has the
  return code 1.
\<close>

theorem timeout_text_and_code:
  "stderr (fst (run_command (toy_os (raises timed_out)) ascii_rt srv list_files None on_host)) =
     u ''Command timed out after 5 minutes''
   \<and> stderr (fst (run_command (toy_os (raises timed_out)) ascii_rt srv list_files None on_host)) \<noteq>
     u ''timed out''
   \<and> returncode (fst (run_command (toy_os (raises timed_out)) ascii_rt srv compile_a None on_host)) = 1"
  by (simp add: eval_defs)

end
